theory Spec2Isabelle
  imports Main
begin

section \<open>The Result class (lib/result/result.ts)\<close>

text \<open>
  \<^verbatim>\<open>Result<TSuccess, TError>\<close> has a private constructor taking the flag
  \<^verbatim>\<open>_isSuccess\<close> and two optional fields; an optional field that was not passed is
  \<^verbatim>\<open>undefined\<close>, modelled as \<open>None\<close>. The two getters throw a JavaScript
  \<^verbatim>\<open>Error\<close>; the exception is the \<open>Inl\<close> branch of the getter's result.
\<close>

datatype thrown = ValueOfErrorResult | ErrorOfSuccessResult

record ('s, 'e) result =
  isSuccessFlag :: bool
  successValue :: "'s option"
  errorValue :: "'e option"

definition Result_ok :: "'s \<Rightarrow> ('s, 'e) result" where
  "Result_ok v = \<lparr>isSuccessFlag = True, successValue = Some v, errorValue = None\<rparr>"

definition Result_fail :: "'e \<Rightarrow> ('s, 'e) result" where
  "Result_fail e = \<lparr>isSuccessFlag = False, successValue = None, errorValue = Some e\<rparr>"

definition isSuccess :: "('s, 'e) result \<Rightarrow> bool" where
  "isSuccess r = isSuccessFlag r"

definition isFailure :: "('s, 'e) result \<Rightarrow> bool" where
  "isFailure r = (\<not> isSuccessFlag r)"

definition get_value :: "('s, 'e) result \<Rightarrow> thrown + 's option" where
  "get_value r = (if \<not> isSuccessFlag r then Inl ValueOfErrorResult else Inr (successValue r))"

definition get_error :: "('s, 'e) result \<Rightarrow> thrown + 'e option" where
  "get_error r = (if isSuccessFlag r then Inl ErrorOfSuccessResult else Inr (errorValue r))"

section \<open>Errors (modules/common/errors)\<close>

text \<open>
  One constructor per error class, with the constructor arguments the classes store in
  fields: \<^verbatim>\<open>UnauthorizedError(reason)\<close>, \<^verbatim>\<open>ForbiddenError(action, resource, reason)\<close>,
  \<^verbatim>\<open>NotFoundError(entityType, entityId)\<close>, \<^verbatim>\<open>ValidationError(field, reason)\<close> and
  \<^verbatim>\<open>DatabaseError(message)\<close>. The optional \<^verbatim>\<open>ErrorContext\<close> and the timestamp
  are debugging metadata and are left out.
\<close>

datatype appError =
    UnauthorizedError string
  | ForbiddenError string string string
  | NotFoundError string string
  | ValidationError string string
  | DatabaseError string

text \<open>
  The \<^verbatim>\<open>httpStatus\<close> field of each class: 401, 403 and 404 are the literals of
  \<^verbatim>\<open>UnauthorizedError\<close>, \<^verbatim>\<open>ForbiddenError\<close> and \<^verbatim>\<open>NotFoundError\<close>.
  \<^verbatim>\<open>ValidationError\<close> and \<^verbatim>\<open>DatabaseError\<close> take the values their documentation
  gives (400 in the errors index, 500 as the \<^verbatim>\<open>InfrastructureError\<close> default).
  \<^verbatim>\<open>ErrorMapper.mapBaseError\<close> copies this field into the response status.
\<close>

fun httpStatus :: "appError \<Rightarrow> nat" where
  "httpStatus (UnauthorizedError _) = 401"
| "httpStatus (ForbiddenError _ _ _) = 403"
| "httpStatus (NotFoundError _ _) = 404"
| "httpStatus (ValidationError _ _) = 400"
| "httpStatus (DatabaseError _) = 500"

text \<open>The two classes of response status an error can be surfaced with: 4xx, a client
  error, and 5xx, a server-side fault.\<close>

definition isClientError :: "appError \<Rightarrow> bool" where
  "isClientError e = (400 \<le> httpStatus e \<and> httpStatus e < 500)"

definition isServerFault :: "appError \<Rightarrow> bool" where
  "isServerFault e = (500 \<le> httpStatus e)"

section \<open>Domain entities\<close>

record permission =
  permissionId :: string
  resource :: string
  action :: string
  description :: string

text \<open>Modelled from the spec: the \<^verbatim>\<open>Permission\<close> entity is not among the source
  files. This is the spec's test of one field of a permission against a query token: the
  field is equal to the token or is the wildcard token.\<close>

definition fieldMatches :: "string \<Rightarrow> string \<Rightarrow> bool" where
  "fieldMatches own query = (own = query \<or> own = ''*'')"

text \<open>Modelled from the spec: the method \<^verbatim>\<open>grants\<close> of the \<^verbatim>\<open>Permission\<close> entity
  is not among the source files; only the call in \<^verbatim>\<open>CheckPermissionUseCase.execute\<close> is.
  The spec's matching rule: the resource matches and the action matches.\<close>

definition grants :: "permission \<Rightarrow> string \<Rightarrow> string \<Rightarrow> bool" where
  "grants p r a = (fieldMatches (resource p) r \<and> fieldMatches (action p) a)"

section \<open>JavaScript strings and arrays\<close>

text \<open>
  \<^verbatim>\<open>s.split(c)\<close> for a one-character separator: the pieces between the separators,
  in order; the empty string gives one empty piece. The second equation's \<open>[]\<close> case
  cannot occur (the result is never empty) and only makes the definition total.
\<close>

fun split_on :: "char \<Rightarrow> string \<Rightarrow> string list" where
  "split_on c [] = [[]]"
| "split_on c (x # xs) =
     (if x = c then [] # split_on c xs
      else (case split_on c xs of [] \<Rightarrow> [[x]] | t # ts \<Rightarrow> (x # t) # ts))"

text \<open>Array destructuring \<^verbatim>\<open>const [a, b] = parts\<close> reads positions 0 and 1; a position
  beyond the end is \<^verbatim>\<open>undefined\<close> (\<open>None\<close>).\<close>

definition element :: "'a list \<Rightarrow> nat \<Rightarrow> 'a option" where
  "element xs i = (if i < length xs then Some (xs ! i) else None)"

section \<open>Users, roles and the persistence collaborators\<close>

text \<open>The value objects \<^verbatim>\<open>UserId\<close>, \<^verbatim>\<open>RoleId\<close>, \<^verbatim>\<open>Email\<close> and
  \<^verbatim>\<open>Password\<close> wrap a string (\<^verbatim>\<open>getValue()\<close>); they are modelled by that string.\<close>

record user =
  userId :: string
  email :: string
  password :: string
  firstName :: string
  lastName :: string
  isActive :: bool
  roleId :: string
  createdAt :: nat
  updatedAt :: nat

text \<open>A row of the \<^verbatim>\<open>user\<close> table; \<open>row_deletedAt\<close> is the soft-delete marker.\<close>

record userRow =
  row_id :: string
  row_email :: string
  row_password :: string
  row_firstName :: string
  row_lastName :: string
  row_isActive :: bool
  row_roleId :: string
  row_createdAt :: nat
  row_updatedAt :: nat
  row_deletedAt :: "nat option"

record role =
  roleName :: string
  permissionIds :: "string list"

text \<open>What \<^verbatim>\<open>jsonwebtoken\<close>'s \<^verbatim>\<open>verify\<close> does with a token: it throws, or returns a
  string, or returns an object whose \<^verbatim>\<open>userId\<close> property is absent, not a string, or a
  string.\<close>

datatype jsField = Absent | NotString | Str string

datatype decoded = VerifyThrows | DecodedString string | DecodedObject jsField

text \<open>
  Everything outside the source files is a parameter: the user table and whether the
  query on it throws, the value objects' factories, the role and permission repositories
  (only their interfaces are used by the use case) and the JWT library.
\<close>

record world =
  userRows :: "userRow list"
  userQueryThrows :: bool
  Email_create :: "string \<Rightarrow> appError + string"
  RoleId_fromString :: "string \<Rightarrow> appError + string"
  UserId_fromString :: "string \<Rightarrow> appError + string"
  roleRepository_findById :: "string \<Rightarrow> appError + role option"
  permissionRepository_findByIds :: "string list \<Rightarrow> appError + permission list"
  jwt_verify :: "string \<Rightarrow> decoded"

text \<open>Modelled from the spec: the \<^verbatim>\<open>User\<close> entity and its method
  \<^verbatim>\<open>canAuthenticate\<close> are not among the source files. The spec: it holds iff the user
  exists, is not soft-deleted, and is active; for a loaded user object the first two are
  settled by the lookup, which leaves the flag.\<close>

definition canAuthenticate :: "user \<Rightarrow> bool" where
  "canAuthenticate u = isActive u"

text \<open>
  \<^verbatim>\<open>UserRepositoryImpl.findById\<close>: the first row with this id and no soft-delete
  marker; a thrown query becomes a \<^verbatim>\<open>DatabaseError\<close>. In the use cases a
  \<^verbatim>\<open>Result\<close> is the sum type: \<open>Inr\<close> for \<^verbatim>\<open>Result.ok\<close>, \<open>Inl\<close> for
  \<^verbatim>\<open>Result.fail\<close>.
\<close>

definition UserRepositoryImpl_findById :: "world \<Rightarrow> string \<Rightarrow> appError + user option" where
  "UserRepositoryImpl_findById w uid =
     (if userQueryThrows w then Inl (DatabaseError ''Failed to find user by ID'')
      else (case find (\<lambda>r. row_id r = uid \<and> row_deletedAt r = None) (userRows w) of
          None \<Rightarrow> Inr None
        | Some record \<Rightarrow>
            (case Email_create w (row_email record) of
               Inl e \<Rightarrow> Inl e
             | Inr emailValue \<Rightarrow>
                 (case RoleId_fromString w (row_roleId record) of
                    Inl e \<Rightarrow> Inl e
                  | Inr roleIdValue \<Rightarrow>
                      Inr (Some \<lparr>userId = uid, email = emailValue,
                                 password = row_password record,
                                 firstName = row_firstName record,
                                 lastName = row_lastName record,
                                 isActive = row_isActive record,
                                 roleId = roleIdValue,
                                 createdAt = row_createdAt record,
                                 updatedAt = row_updatedAt record\<rparr>)))))"

section \<open>The use cases\<close>

text \<open>Every call to a collaborator is recorded, in order, in a list of events that is
  returned beside the result.\<close>

datatype event =
    JwtVerify string
  | UserFindById string
  | RoleFindById string
  | PermissionFindByIds "string list"
  | CheckPermission string string
  | HandlerInvoked

definition GetActiveUserByIdUseCase_execute ::
    "world \<Rightarrow> string \<Rightarrow> (appError + user) \<times> event list" where
  "GetActiveUserByIdUseCase_execute w uid =
     (case UserRepositoryImpl_findById w uid of
        Inl e \<Rightarrow> (Inl e, [UserFindById uid])
      | Inr None \<Rightarrow> (Inl (UnauthorizedError ''User inactive or not found''), [UserFindById uid])
      | Inr (Some u) \<Rightarrow>
          if \<not> canAuthenticate u
          then (Inl (UnauthorizedError ''User inactive or not found''), [UserFindById uid])
          else (Inr u, [UserFindById uid]))"

definition CheckPermissionUseCase_execute ::
    "world \<Rightarrow> string \<Rightarrow> string \<Rightarrow> string \<Rightarrow> (appError + bool) \<times> event list" where
  "CheckPermissionUseCase_execute w uid res act =
     (case UserRepositoryImpl_findById w uid of
        Inl e \<Rightarrow> (Inl e, [UserFindById uid])
      | Inr None \<Rightarrow> (Inl (NotFoundError ''User'' uid), [UserFindById uid])
      | Inr (Some u) \<Rightarrow>
          if \<not> isActive u then (Inr False, [UserFindById uid])
          else (case roleRepository_findById w (roleId u) of
              Inl e \<Rightarrow> (Inl e, [UserFindById uid, RoleFindById (roleId u)])
            | Inr None \<Rightarrow>
                (Inl (NotFoundError ''Role'' (roleId u)), [UserFindById uid, RoleFindById (roleId u)])
            | Inr (Some r) \<Rightarrow>
                if length (permissionIds r) = 0
                then (Inr False, [UserFindById uid, RoleFindById (roleId u)])
                else (case permissionRepository_findByIds w (permissionIds r) of
                    Inl e \<Rightarrow>
                      (Inl e, [UserFindById uid, RoleFindById (roleId u),
                               PermissionFindByIds (permissionIds r)])
                  | Inr ps \<Rightarrow>
                      (Inr (list_ex (\<lambda>p. grants p res act) ps),
                       [UserFindById uid, RoleFindById (roleId u),
                        PermissionFindByIds (permissionIds r)]))))"

section \<open>The middlewares\<close>

record request =
  authorization :: "string option"
  reqUserId :: "string option"

text \<open>
  The first lines of \<^verbatim>\<open>AuthenticationMiddleware.handle\<close>, up to the call of the token
  service. \<^verbatim>\<open>!authHeader\<close> and \<^verbatim>\<open>!token\<close> hold for \<^verbatim>\<open>undefined\<close> and for
  the empty string. The result is the token handed to \<^verbatim>\<open>jwtService.verify\<close>, or the
  error passed to \<^verbatim>\<open>next\<close>.
\<close>

definition bearerToken :: "string option \<Rightarrow> appError + string" where
  "bearerToken authHeader =
     (case authHeader of
        None \<Rightarrow> Inl (UnauthorizedError ''Token missing'')
      | Some h \<Rightarrow>
          if h = [] then Inl (UnauthorizedError ''Token missing'')
          else (let parts = split_on CHR '' '' h;
                    scheme = element parts 0;
                    token = element parts 1
                in case token of
                     None \<Rightarrow> Inl (UnauthorizedError ''Invalid authorization header'')
                   | Some t \<Rightarrow>
                       if scheme \<noteq> Some ''Bearer'' \<or> t = []
                       then Inl (UnauthorizedError ''Invalid authorization header'')
                       else Inr t))"

text \<open>\<^verbatim>\<open>JwtService.verify\<close>; of the payload only \<^verbatim>\<open>userId\<close> is read afterwards.\<close>

definition JwtService_verify :: "world \<Rightarrow> string \<Rightarrow> appError + string" where
  "JwtService_verify w token =
     (case jwt_verify w token of
        VerifyThrows \<Rightarrow> Inl (UnauthorizedError ''Invalid or expired token'')
      | DecodedString _ \<Rightarrow> Inl (UnauthorizedError ''Invalid token payload'')
      | DecodedObject f \<Rightarrow>
          (case f of
             Str s \<Rightarrow> if s = [] then Inl (UnauthorizedError ''Invalid token payload'') else Inr s
           | _ \<Rightarrow> Inl (UnauthorizedError ''Invalid token payload'')))"

text \<open>
  A middleware returns what it passes to \<^verbatim>\<open>next\<close> (\<open>None\<close> for \<^verbatim>\<open>next()\<close>, an
  error for \<^verbatim>\<open>next(err)\<close>), the request as it leaves it, and its events.
\<close>

type_synonym middleware = "world \<Rightarrow> request \<Rightarrow> appError option \<times> request \<times> event list"

definition AuthenticationMiddleware_handle :: middleware where
  "AuthenticationMiddleware_handle w req =
     (case bearerToken (authorization req) of
        Inl e \<Rightarrow> (Some e, req, [])
      | Inr token \<Rightarrow>
          (case JwtService_verify w token of
             Inl e \<Rightarrow> (Some e, req, [JwtVerify token])
           | Inr payloadUserId \<Rightarrow>
               (case UserId_fromString w payloadUserId of
                  Inl _ \<Rightarrow> (Some (UnauthorizedError ''Invalid token payload''), req, [JwtVerify token])
                | Inr uid \<Rightarrow>
                    (case GetActiveUserByIdUseCase_execute w uid of
                       (Inl e, tr) \<Rightarrow> (Some e, req, JwtVerify token # tr)
                     | (Inr u, tr) \<Rightarrow>
                         (None, req\<lparr>reqUserId := Some (userId u)\<rparr>, JwtVerify token # tr)))))"

text \<open>
  The destructuring and the format test of the loop body of
  \<^verbatim>\<open>AuthorizationMiddleware.requirePermission\<close>: \<open>None\<close> when
  \<^verbatim>\<open>!resource || !action\<close>, the pair otherwise.
\<close>

definition parsePermissionCode :: "string \<Rightarrow> (string \<times> string) option" where
  "parsePermissionCode permissionCode =
     (let parts = split_on CHR '':'' permissionCode
      in case (element parts 0, element parts 1) of
           (Some res, Some act) \<Rightarrow> if res = [] \<or> act = [] then None else Some (res, act)
         | _ \<Rightarrow> None)"

text \<open>The \<^verbatim>\<open>for\<close> loop over the permission codes; leaving the loop is \<^verbatim>\<open>next()\<close>.\<close>

fun checkPermissions :: "world \<Rightarrow> string \<Rightarrow> string list \<Rightarrow> appError option \<times> event list" where
  "checkPermissions w uid [] = (None, [])"
| "checkPermissions w uid (permissionCode # rest) =
     (case parsePermissionCode permissionCode of
        None \<Rightarrow> (Some (ValidationError ''permission'' ''Invalid permission format''), [])
      | Some (res, act) \<Rightarrow>
          (case CheckPermissionUseCase_execute w uid res act of
             (Inl e, tr) \<Rightarrow> (Some e, CheckPermission res act # tr)
           | (Inr hasPermission, tr) \<Rightarrow>
               if \<not> hasPermission
               then (Some (ForbiddenError act res ''Missing required permission''),
                     CheckPermission res act # tr)
               else (case checkPermissions w uid rest of
                       (out, tr') \<Rightarrow> (out, CheckPermission res act # tr @ tr'))))"

text \<open>The argument of \<^verbatim>\<open>requirePermission\<close> is one code or an array of codes.\<close>

datatype permissionArg = One string | Many "string list"

fun toArray :: "permissionArg \<Rightarrow> string list" where
  "toArray (One c) = [c]"
| "toArray (Many cs) = cs"

definition requirePermission :: "permissionArg \<Rightarrow> middleware" where
  "requirePermission permission w req =
     (case reqUserId req of
        None \<Rightarrow> (Some (UnauthorizedError ''Token missing''), req, [])
      | Some raw \<Rightarrow>
          if raw = [] then (Some (UnauthorizedError ''Token missing''), req, [])
          else (case UserId_fromString w raw of
                  Inl _ \<Rightarrow> (Some (UnauthorizedError ''Invalid user context''), req, [])
                | Inr uid \<Rightarrow>
                    (case checkPermissions w uid (toArray permission) of
                       (out, tr) \<Rightarrow> (out, req, tr))))"

section \<open>The route pipeline\<close>

text \<open>Modelled from the spec: the router that runs a route's handlers is the web
  framework, not a source file. The spec's pipeline: the handlers run in the order given,
  each on the request its predecessor left, and the first error passed on ends the
  chain.\<close>

fun dispatch :: "middleware list \<Rightarrow> middleware" where
  "dispatch [] w req = (None, req, [])"
| "dispatch (m # ms) w req =
     (case m w req of
        (Some e, req', tr) \<Rightarrow> (Some e, req', tr)
      | (None, req', tr) \<Rightarrow>
          (case dispatch ms w req' of (out, req'', tr') \<Rightarrow> (out, req'', tr @ tr')))"

text \<open>The protected handler (a controller method); its own outcome is a parameter.\<close>

definition controllerHandler :: "appError option \<Rightarrow> middleware" where
  "controllerHandler out w req = (out, req, [HandlerInvoked])"

text \<open>
  \<^verbatim>\<open>PermissionsRoutes.setupRoutes\<close> registers
  \<^verbatim>\<open>authenticate, requirePermissionsRead, controller.list\<close>; \<open>protectedRoute\<close> is that
  shape for any list of declared permission requirements.
\<close>

definition protectedRoute :: "permissionArg list \<Rightarrow> appError option \<Rightarrow> middleware list" where
  "protectedRoute required out =
     AuthenticationMiddleware_handle # map requirePermission required @ [controllerHandler out]"

definition PermissionsRoutes_list :: "appError option \<Rightarrow> middleware list" where
  "PermissionsRoutes_list out =
     [AuthenticationMiddleware_handle, requirePermission (One ''permissions:read''),
      controllerHandler out]"

section \<open>A concrete deployment\<close>

text \<open>The seeded roles (ADMIN with the wildcard permission, USER, GUEST without
  permissions) and a few users, for the worked examples below.\<close>

definition mkRow :: "string \<Rightarrow> bool \<Rightarrow> string \<Rightarrow> nat option \<Rightarrow> userRow" where
  "mkRow i active r deleted =
     \<lparr>row_id = i, row_email = i @ ''@example.com'', row_password = ''hash'',
      row_firstName = ''First'', row_lastName = ''Last'', row_isActive = active,
      row_roleId = r, row_createdAt = 1, row_updatedAt = 2, row_deletedAt = deleted\<rparr>"

definition seedPermissions :: "permission list" where
  "seedPermissions =
     [\<lparr>permissionId = ''p-all'', resource = ''*'', action = ''*'', description = ''Everything''\<rparr>,
      \<lparr>permissionId = ''p-ur'', resource = ''users'', action = ''read'', description = ''Read users''\<rparr>]"

definition seedRoles :: "string \<Rightarrow> role option" where
  "seedRoles r =
     (if r = ''r-admin'' then Some \<lparr>roleName = ''ADMIN'', permissionIds = [''p-all'']\<rparr>
      else if r = ''r-user'' then Some \<lparr>roleName = ''USER'', permissionIds = [''p-ur'']\<rparr>
      else if r = ''r-guest'' then Some \<lparr>roleName = ''GUEST'', permissionIds = []\<rparr>
      else None)"

definition seedTokens :: "string \<Rightarrow> decoded" where
  "seedTokens t =
     (if t = ''abc'' then DecodedObject (Str ''u-admin'')
      else if t = ''usr'' then DecodedObject (Str ''u-user'')
      else if t = ''off'' then DecodedObject (Str ''u-off'')
      else if t = ''gone'' then DecodedObject (Str ''u-gone'')
      else if t = ''orph'' then DecodedObject (Str ''u-orphan'')
      else VerifyThrows)"

definition world0 :: world where
  "world0 =
     \<lparr>userRows = [mkRow ''u-admin'' True ''r-admin'' None,
                  mkRow ''u-user'' True ''r-user'' None,
                  mkRow ''u-guest'' True ''r-guest'' None,
                  mkRow ''u-off'' False ''r-admin'' None,
                  mkRow ''u-gone'' True ''r-admin'' (Some 7),
                  mkRow ''u-orphan'' True ''r-none'' None],
      userQueryThrows = False,
      Email_create = Inr,
      RoleId_fromString = Inr,
      UserId_fromString = Inr,
      roleRepository_findById = (\<lambda>r. Inr (seedRoles r)),
      permissionRepository_findByIds =
        (\<lambda>ids. Inr (filter (\<lambda>p. permissionId p \<in> set ids) seedPermissions)),
      jwt_verify = seedTokens\<rparr>"

definition request0 :: "string \<Rightarrow> request" where
  "request0 h = \<lparr>authorization = Some h, reqUserId = None\<rparr>"

definition authenticated :: "string \<Rightarrow> request" where
  "authenticated uid = \<lparr>authorization = None, reqUserId = Some uid\<rparr>"

section \<open>The shapes the specification asks for\<close>

text \<open>
  The specification's wording of a well-formed permission code and of a well-formed
  authorization header, to be compared with what the middlewares accept: the string
  splits into exactly two tokens, both non-empty (the first being the scheme for a
  header).
\<close>

definition specPermissionCode :: "string \<Rightarrow> bool" where
  "specPermissionCode code =
     (case split_on CHR '':'' code of [r, a] \<Rightarrow> r \<noteq> [] \<and> a \<noteq> [] | _ \<Rightarrow> False)"

definition specBearerHeader :: "string \<Rightarrow> bool" where
  "specBearerHeader h =
     (case split_on CHR '' '' h of [s, t] \<Rightarrow> s = ''Bearer'' \<and> t \<noteq> [] | _ \<Rightarrow> False)"

text \<open>The user object that \<^verbatim>\<open>findById\<close> builds from a row made by \<open>mkRow\<close>.\<close>

definition mkUser :: "string \<Rightarrow> bool \<Rightarrow> string \<Rightarrow> user" where
  "mkUser i active r =
     \<lparr>userId = i, email = i @ ''@example.com'', password = ''hash'',
      firstName = ''First'', lastName = ''Last'', isActive = active,
      roleId = r, createdAt = 1, updatedAt = 2\<rparr>"

section \<open>Lookups in the concrete deployment\<close>

lemma findById_world0:
  "UserRepositoryImpl_findById world0 ''u-off'' = Inr (Some (mkUser ''u-off'' False ''r-admin''))"
  "UserRepositoryImpl_findById world0 ''u-guest'' = Inr (Some (mkUser ''u-guest'' True ''r-guest''))"
  "UserRepositoryImpl_findById world0 ''u-orphan'' = Inr (Some (mkUser ''u-orphan'' True ''r-none''))"
  "UserRepositoryImpl_findById world0 ''u-gone'' = Inr None"
  "UserRepositoryImpl_findById world0 ''u-user'' = Inr (Some (mkUser ''u-user'' True ''r-user''))"
  "UserRepositoryImpl_findById world0 ''u-admin'' = Inr (Some (mkUser ''u-admin'' True ''r-admin''))"
  by (simp_all add: UserRepositoryImpl_findById_def world0_def mkRow_def mkUser_def)

lemma world0_sel:
  "userQueryThrows world0 = False"
  "Email_create world0 = Inr"
  "RoleId_fromString world0 = Inr"
  "UserId_fromString world0 = Inr"
  "roleRepository_findById world0 r = Inr (seedRoles r)"
  "permissionRepository_findByIds world0 ids
     = Inr (filter (\<lambda>p. permissionId p \<in> set ids) seedPermissions)"
  "jwt_verify world0 = seedTokens"
  by (simp_all add: world0_def)

lemma execute_world0_user_read:
  "CheckPermissionUseCase_execute world0 ''u-user'' ''users'' ''read''
     = (Inr True, [UserFindById ''u-user'', RoleFindById ''r-user'', PermissionFindByIds [''p-ur'']])"
  by (simp add: CheckPermissionUseCase_execute_def findById_world0 mkUser_def world0_sel
      seedRoles_def seedPermissions_def grants_def fieldMatches_def)

lemma execute_active_world0:
  "GetActiveUserByIdUseCase_execute world0 ''u-admin''
     = (Inr (mkUser ''u-admin'' True ''r-admin''), [UserFindById ''u-admin''])"
  by (simp add: GetActiveUserByIdUseCase_execute_def findById_world0 canAuthenticate_def mkUser_def)

lemma handle_world0_admin:
  "bearerToken (Some h) = Inr ''abc'' \<Longrightarrow>
   AuthenticationMiddleware_handle world0 (request0 h)
     = (None, \<lparr>authorization = Some h, reqUserId = Some ''u-admin''\<rparr>,
        [JwtVerify ''abc'', UserFindById ''u-admin''])"
  by (simp add: AuthenticationMiddleware_handle_def request0_def JwtService_verify_def
      world0_sel seedTokens_def execute_active_world0) (simp add: mkUser_def)

lemma execute_world0_user_write:
  "CheckPermissionUseCase_execute world0 ''u-user'' ''users'' ''write''
     = (Inr False, [UserFindById ''u-user'', RoleFindById ''r-user'', PermissionFindByIds [''p-ur'']])"
  by (simp add: CheckPermissionUseCase_execute_def findById_world0 mkUser_def world0_sel
      seedRoles_def seedPermissions_def grants_def fieldMatches_def)

lemma requirePermission_world0_read:
  "requirePermission (One ''users:read'') world0 (authenticated ''u-user'')
     = (None, authenticated ''u-user'',
        [CheckPermission ''users'' ''read'', UserFindById ''u-user'', RoleFindById ''r-user'',
         PermissionFindByIds [''p-ur'']])"
proof -
  have "parsePermissionCode ''users:read'' = Some (''users'', ''read'')"
    by (simp add: parsePermissionCode_def element_def)
  then show ?thesis
    by (simp add: requirePermission_def authenticated_def world0_sel execute_world0_user_read)
qed

lemma requirePermission_world0_write:
  "requirePermission (One ''users:write'') world0 (authenticated ''u-user'')
     = (Some (ForbiddenError ''write'' ''users'' ''Missing required permission''),
        authenticated ''u-user'',
        [CheckPermission ''users'' ''write'', UserFindById ''u-user'', RoleFindById ''r-user'',
         PermissionFindByIds [''p-ur'']])"
proof -
  have "parsePermissionCode ''users:write'' = Some (''users'', ''write'')"
    by (simp add: parsePermissionCode_def element_def)
  then show ?thesis
    by (simp add: requirePermission_def authenticated_def world0_sel execute_world0_user_write)
qed

lemma handle_world0_user:
  "AuthenticationMiddleware_handle world0 (request0 ''Bearer usr'')
     = (None, \<lparr>authorization = Some ''Bearer usr'', reqUserId = Some ''u-user''\<rparr>,
        [JwtVerify ''usr'', UserFindById ''u-user''])"
proof -
  have "bearerToken (Some ''Bearer usr'') = Inr ''usr''"
    by (simp add: bearerToken_def element_def)
  moreover have "GetActiveUserByIdUseCase_execute world0 ''u-user''
     = (Inr (mkUser ''u-user'' True ''r-user''), [UserFindById ''u-user''])"
    by (simp add: GetActiveUserByIdUseCase_execute_def findById_world0 canAuthenticate_def mkUser_def)
  ultimately show ?thesis
    by (simp add: AuthenticationMiddleware_handle_def request0_def JwtService_verify_def
        world0_sel seedTokens_def) (simp add: mkUser_def)
qed

lemma handle_world0_wrong_scheme:
  "AuthenticationMiddleware_handle world0 (request0 ''Token abc'')
     = (Some (UnauthorizedError ''Invalid authorization header''), request0 ''Token abc'', [])"
  by (simp add: AuthenticationMiddleware_handle_def request0_def bearerToken_def element_def)

lemma parse_permissions_read:
  "parsePermissionCode ''permissions:read'' = Some (''permissions'', ''read'')"
  by (simp add: parsePermissionCode_def element_def)

lemma requirePermission_world0_user_permissions:
  "requirePermission (One ''permissions:read'') world0
      \<lparr>authorization = Some ''Bearer usr'', reqUserId = Some ''u-user''\<rparr>
     = (Some (ForbiddenError ''read'' ''permissions'' ''Missing required permission''),
        \<lparr>authorization = Some ''Bearer usr'', reqUserId = Some ''u-user''\<rparr>,
        [CheckPermission ''permissions'' ''read'', UserFindById ''u-user'',
         RoleFindById ''r-user'', PermissionFindByIds [''p-ur'']])"
proof -
  have "CheckPermissionUseCase_execute world0 ''u-user'' ''permissions'' ''read''
     = (Inr False, [UserFindById ''u-user'', RoleFindById ''r-user'', PermissionFindByIds [''p-ur'']])"
    by (simp add: CheckPermissionUseCase_execute_def findById_world0 mkUser_def world0_sel
        seedRoles_def seedPermissions_def grants_def fieldMatches_def)
  then show ?thesis
    by (simp add: requirePermission_def world0_sel parse_permissions_read)
qed

lemma requirePermission_world0_admin_permissions:
  "requirePermission (One ''permissions:read'') world0
      \<lparr>authorization = Some ''Bearer abc'', reqUserId = Some ''u-admin''\<rparr>
     = (None, \<lparr>authorization = Some ''Bearer abc'', reqUserId = Some ''u-admin''\<rparr>,
        [CheckPermission ''permissions'' ''read'', UserFindById ''u-admin'',
         RoleFindById ''r-admin'', PermissionFindByIds [''p-all'']])"
proof -
  have "CheckPermissionUseCase_execute world0 ''u-admin'' ''permissions'' ''read''
     = (Inr True, [UserFindById ''u-admin'', RoleFindById ''r-admin'', PermissionFindByIds [''p-all'']])"
    by (simp add: CheckPermissionUseCase_execute_def findById_world0 mkUser_def world0_sel
        seedRoles_def seedPermissions_def grants_def fieldMatches_def)
  then show ?thesis
    by (simp add: requirePermission_def world0_sel parse_permissions_read)
qed

section \<open>Splitting strings\<close>

lemma split_on_not_Nil: "split_on c s \<noteq> []"
  by (induction s) (auto split: list.splits)

lemma split_on_no_sep: "c \<notin> set r \<Longrightarrow> split_on c r = [r]"
  by (induction r) auto

lemma split_on_prefix: "c \<notin> set r \<Longrightarrow> split_on c (r @ c # s) = r # split_on c s"
  by (induction r) auto

lemma split_on_Cons:
  "split_on c s = t # ts \<Longrightarrow>
     c \<notin> set t \<and> (if ts = [] then s = t else (\<exists>s'. s = t @ c # s' \<and> split_on c s' = ts))"
proof (induction s arbitrary: t ts)
  case Nil
  then show ?case by simp
next
  case (Cons x xs)
  show ?case
  proof (cases "x = c")
    case True
    with Cons.prems show ?thesis using split_on_not_Nil by auto
  next
    case False
    from split_on_not_Nil obtain t' ts' where s: "split_on c xs = t' # ts'"
      by (cases "split_on c xs") auto
    with Cons.prems False have t: "t = x # t'" and ts: "ts = ts'" by auto
    from Cons.IH [OF s] have ih: "c \<notin> set t'"
      "if ts' = [] then xs = t' else (\<exists>s'. xs = t' @ c # s' \<and> split_on c s' = ts')" by auto
    with False t ts show ?thesis by (auto split: if_splits)
  qed
qed

lemma parsePermissionCode_Some:
  "(parsePermissionCode code = Some (r, a)) =
     (r \<noteq> [] \<and> a \<noteq> [] \<and> CHR '':'' \<notin> set r \<and> CHR '':'' \<notin> set a
      \<and> (code = r @ '':'' @ a \<or> (\<exists>rest. code = r @ '':'' @ a @ '':'' @ rest)))"
  (is "?L = ?R")
proof
  assume ?L
  obtain t ts where s: "split_on CHR '':'' code = t # ts"
    using split_on_not_Nil by (cases "split_on CHR '':'' code") auto
  from \<open>?L\<close> s have ts: "ts \<noteq> []" and t: "t = r" "r \<noteq> []"
    by (auto simp: parsePermissionCode_def element_def split: if_splits)
  from ts obtain u us where us: "ts = u # us" by (cases ts) auto
  from \<open>?L\<close> s us have u: "u = a" "a \<noteq> []"
    by (auto simp: parsePermissionCode_def element_def split: if_splits)
  from split_on_Cons [OF s] ts obtain s' where
    c1: "CHR '':'' \<notin> set t" and s': "code = t @ CHR '':'' # s'" "split_on CHR '':'' s' = u # us"
    using us by auto
  from split_on_Cons [OF s'(2)] have
    c2: "CHR '':'' \<notin> set u"
    and rest: "if us = [] then s' = u else (\<exists>s''. s' = u @ CHR '':'' # s'' \<and> split_on CHR '':'' s'' = us)"
    by auto
  show ?R
  proof (cases "us = []")
    case True
    with rest s' t u c1 c2 show ?thesis by auto
  next
    case False
    with rest obtain s'' where "s' = u @ CHR '':'' # s''" by auto
    with s' t u c1 c2 show ?thesis by auto
  qed
next
  assume R: ?R
  then have r: "r \<noteq> []" "a \<noteq> []" "CHR '':'' \<notin> set r" "CHR '':'' \<notin> set a" by auto
  from R consider "code = r @ '':'' @ a" | rest where "code = r @ '':'' @ a @ '':'' @ rest"
    by auto
  then show ?L
  proof cases
    case 1
    with r have "split_on CHR '':'' code = [r, a]"
      by (simp add: split_on_prefix split_on_no_sep)
    with r show ?thesis by (simp add: parsePermissionCode_def element_def)
  next
    case 2
    with r have "split_on CHR '':'' code = r # a # split_on CHR '':'' rest"
      by (simp add: split_on_prefix)
    with r show ?thesis by (simp add: parsePermissionCode_def element_def)
  qed
qed


section \<open>What the middlewares do with their input\<close>

lemma requirePermission_authenticated:
  assumes "reqUserId req = Some raw" and "raw \<noteq> []" and "UserId_fromString w raw = Inr uid"
  shows "requirePermission p w req =
           (fst (checkPermissions w uid (toArray p)), req, snd (checkPermissions w uid (toArray p)))"
  using assms by (simp add: requirePermission_def split: prod.splits)

lemma checkPermissions_parsed:
  "parsePermissionCode code = Some (r, a) \<Longrightarrow>
     \<exists>tr. snd (checkPermissions w uid (code # rest)) = CheckPermission r a # tr"
  by (simp split: prod.splits sum.splits)

lemma checkPermissions_unparsed:
  "parsePermissionCode code = None \<Longrightarrow>
     checkPermissions w uid (code # rest)
       = (Some (ValidationError ''permission'' ''Invalid permission format''), [])"
  by simp

lemma no_sep_unparsed: "CHR '':'' \<notin> set code \<Longrightarrow> parsePermissionCode code = None"
  by (simp add: parsePermissionCode_def split_on_no_sep element_def)

lemma bearerToken_Inr:
  "(bearerToken h = Inr t) =
     (\<exists>s. h = Some s \<and> t \<noteq> [] \<and> CHR '' '' \<notin> set t
          \<and> (s = ''Bearer '' @ t \<or> (\<exists>more. s = ''Bearer '' @ t @ '' '' @ more)))"
  (is "?L = ?R")
proof
  assume L: ?L
  then obtain s where h: "h = Some s" "s \<noteq> []"
    by (cases h) (auto simp: bearerToken_def split: if_splits)
  obtain p ps where sp: "split_on CHR '' '' s = p # ps"
    using split_on_not_Nil by (cases "split_on CHR '' '' s") auto
  from L h sp have ps: "ps \<noteq> []" and p: "p = ''Bearer''"
    by (auto simp: bearerToken_def element_def Let_def split: if_splits option.splits)
  from ps obtain u us where us: "ps = u # us" by (cases ps) auto
  from L h sp us have u: "u = t" "t \<noteq> []"
    by (auto simp: bearerToken_def element_def Let_def split: if_splits option.splits)
  from split_on_Cons [OF sp] us obtain s' where
    s': "s = p @ CHR '' '' # s'" "split_on CHR '' '' s' = u # us" by auto
  from split_on_Cons [OF s'(2)] have
    c2: "CHR '' '' \<notin> set u"
    and rest: "if us = [] then s' = u else (\<exists>s''. s' = u @ CHR '' '' # s'' \<and> split_on CHR '' '' s'' = us)"
    by auto
  show ?R
  proof (cases "us = []")
    case True
    with rest s' p u c2 h show ?thesis by auto
  next
    case False
    with rest obtain s'' where "s' = u @ CHR '' '' # s''" by auto
    with s' p u c2 h show ?thesis by auto
  qed
next
  assume R: ?R
  then obtain s where s: "h = Some s" "t \<noteq> []" "CHR '' '' \<notin> set t"
    "s = ''Bearer '' @ t \<or> (\<exists>more. s = ''Bearer '' @ t @ '' '' @ more)" by auto
  have b: "CHR '' '' \<notin> set ''Bearer''" by simp
  from s(4) consider "s = ''Bearer'' @ CHR '' '' # t"
    | more where "s = ''Bearer'' @ CHR '' '' # t @ CHR '' '' # more" by auto
  then show ?L
  proof cases
    case 1
    then have "split_on CHR '' '' s = [''Bearer'', t]"
      using split_on_prefix [OF b, of t] split_on_no_sep [OF s(3)] by simp
    with s 1 show ?thesis by (simp add: bearerToken_def element_def)
  next
    case 2
    then have "split_on CHR '' '' s = ''Bearer'' # t # split_on CHR '' '' more"
      using split_on_prefix [OF b, of "t @ CHR '' '' # more"] split_on_prefix [OF s(3), of more]
      by simp
    with s 2 show ?thesis by (simp add: bearerToken_def element_def)
  qed
qed

lemma bearerToken_Inl:
  "bearerToken h = Inl e \<Longrightarrow>
     e = (if h = None \<or> h = Some [] then UnauthorizedError ''Token missing''
          else UnauthorizedError ''Invalid authorization header'')"
  by (auto simp: bearerToken_def Let_def split: option.splits if_splits)

lemma handle_rejected:
  "bearerToken (authorization req) = Inl e \<Longrightarrow>
     AuthenticationMiddleware_handle w req = (Some e, req, [])"
  by (simp add: AuthenticationMiddleware_handle_def)

lemma handle_proceeds:
  "bearerToken (authorization req) = Inr t \<Longrightarrow>
     \<exists>out req' tr. AuthenticationMiddleware_handle w req = (out, req', JwtVerify t # tr)"
  by (simp add: AuthenticationMiddleware_handle_def split: sum.splits prod.splits)


lemma checkPermissions_granted_step:
  "fst (checkPermissions w uid [c]) = None \<Longrightarrow>
     checkPermissions w uid (c # rest)
       = (fst (checkPermissions w uid rest),
          snd (checkPermissions w uid [c]) @ snd (checkPermissions w uid rest))"
  by (auto split: option.splits prod.splits sum.splits if_splits)

lemma checkPermissions_failed_step:
  "fst (checkPermissions w uid [c]) = Some e \<Longrightarrow>
     checkPermissions w uid (c # rest) = (Some e, snd (checkPermissions w uid [c]))"
  by (auto split: option.splits prod.splits sum.splits if_splits)

lemma checkPermissions_all_granted:
  "(fst (checkPermissions w uid cs) = None)
     = (\<forall>c\<in>set cs. fst (checkPermissions w uid [c]) = None)"
proof (induction cs)
  case Nil
  show ?case by simp
next
  case (Cons c cs)
  show ?case
  proof (cases "fst (checkPermissions w uid [c])")
    case None
    from checkPermissions_granted_step [OF None, of cs] None Cons.IH show ?thesis by simp
  next
    case (Some e)
    from checkPermissions_failed_step [OF Some, of cs] Some show ?thesis by simp
  qed
qed

lemma checkPermissions_first_failure:
  "\<forall>p\<in>set pre. fst (checkPermissions w uid [p]) = None \<Longrightarrow>
   fst (checkPermissions w uid [c]) = Some e \<Longrightarrow>
   checkPermissions w uid (pre @ c # post)
     = (Some e, concat (map (\<lambda>p. snd (checkPermissions w uid [p])) (pre @ [c])))"
proof (induction pre)
  case Nil
  from checkPermissions_failed_step [OF Nil(2), of post] show ?case by simp
next
  case (Cons p pre)
  from Cons.prems have p: "fst (checkPermissions w uid [p]) = None" by simp
  from Cons.IH Cons.prems have
    "checkPermissions w uid (pre @ c # post)
       = (Some e, concat (map (\<lambda>p. snd (checkPermissions w uid [p])) (pre @ [c])))" by simp
  with checkPermissions_granted_step [OF p, of "pre @ c # post"] show ?case by simp
qed

lemma checkPermissions_trace_granted:
  "\<forall>c\<in>set cs. fst (checkPermissions w uid [c]) = None \<Longrightarrow>
   snd (checkPermissions w uid cs) = concat (map (\<lambda>p. snd (checkPermissions w uid [p])) cs)"
proof (induction cs)
  case Nil
  show ?case by simp
next
  case (Cons c cs)
  from Cons.prems have c: "fst (checkPermissions w uid [c]) = None" by simp
  from checkPermissions_granted_step [OF c, of cs] Cons show ?case by simp
qed

lemma findById_no_live_row:
  assumes "\<not> userQueryThrows w"
    and "\<forall>r\<in>set (userRows w). row_id r = uid \<longrightarrow> row_deletedAt r \<noteq> None"
  shows "UserRepositoryImpl_findById w uid = Inr None"
proof -
  from assms(2) have "find (\<lambda>r. row_id r = uid \<and> row_deletedAt r = None) (userRows w) = None"
    by (auto simp: find_None_iff)
  with assms(1) show ?thesis by (simp add: UserRepositoryImpl_findById_def)
qed

lemma handle_user_rejected:
  assumes "bearerToken (authorization req) = Inr token"
    and "JwtService_verify w token = Inr pid"
    and "UserId_fromString w pid = Inr uid"
    and "UserRepositoryImpl_findById w uid = Inr None
         \<or> (\<exists>u. UserRepositoryImpl_findById w uid = Inr (Some u) \<and> \<not> canAuthenticate u)"
  shows "AuthenticationMiddleware_handle w req
           = (Some (UnauthorizedError ''User inactive or not found''), req,
              [JwtVerify token, UserFindById uid])"
  using assms
  by (auto simp: AuthenticationMiddleware_handle_def GetActiveUserByIdUseCase_execute_def)

lemma requirePermission_one:
  assumes "reqUserId req = Some raw" and "raw \<noteq> []" and "UserId_fromString w raw = Inr uid"
  shows "requirePermission (One c) w req =
     (case parsePermissionCode c of
        None \<Rightarrow> (Some (ValidationError ''permission'' ''Invalid permission format''), req, [])
      | Some (r, a) \<Rightarrow>
          (case fst (CheckPermissionUseCase_execute w uid r a) of
             Inl e \<Rightarrow> Some e
           | Inr granted \<Rightarrow>
               if granted then None
               else Some (ForbiddenError a r ''Missing required permission''),
           req, CheckPermission r a # snd (CheckPermissionUseCase_execute w uid r a)))"
  using requirePermission_authenticated [OF assms, of "One c"]
  by (simp split: option.splits prod.splits sum.splits)

lemma findById_userId:
  "UserRepositoryImpl_findById w uid = Inr (Some u) \<Longrightarrow> userId u = uid"
  by (auto simp: UserRepositoryImpl_findById_def split: if_splits option.splits sum.splits)

lemma handle_passes:
  assumes "bearerToken (authorization req) = Inr t" and "JwtService_verify w t = Inr pid"
    and "UserId_fromString w pid = Inr uid"
    and "UserRepositoryImpl_findById w uid = Inr (Some u)" and "canAuthenticate u"
  shows "AuthenticationMiddleware_handle w req
           = (None, req\<lparr>reqUserId := Some uid\<rparr>, [JwtVerify t, UserFindById uid])"
  using assms findById_userId [OF assms(4)]
  by (simp add: AuthenticationMiddleware_handle_def GetActiveUserByIdUseCase_execute_def)

lemma handle_passes_iff:
  "(fst (AuthenticationMiddleware_handle w req) = None)
     = (\<exists>t pid uid u. bearerToken (authorization req) = Inr t
          \<and> JwtService_verify w t = Inr pid \<and> UserId_fromString w pid = Inr uid
          \<and> UserRepositoryImpl_findById w uid = Inr (Some u) \<and> canAuthenticate u)"
  (is "?L = ?R")
proof
  assume ?L
  then show ?R
    by (auto simp: AuthenticationMiddleware_handle_def GetActiveUserByIdUseCase_execute_def
        split: sum.splits option.splits prod.splits if_splits)
next
  assume ?R
  then obtain t pid uid u where "bearerToken (authorization req) = Inr t"
    "JwtService_verify w t = Inr pid" "UserId_fromString w pid = Inr uid"
    "UserRepositoryImpl_findById w uid = Inr (Some u)" "canAuthenticate u" by blast
  from handle_passes [OF this] show ?L by simp
qed

lemma handle_verification_failed:
  "bearerToken (authorization req) = Inr t \<Longrightarrow> JwtService_verify w t = Inl err \<Longrightarrow>
     AuthenticationMiddleware_handle w req = (Some err, req, [JwtVerify t])"
  by (simp add: AuthenticationMiddleware_handle_def)

lemma checkPermissions_one_passes:
  "(fst (checkPermissions w uid [c]) = None)
     = (\<exists>r a. parsePermissionCode c = Some (r, a)
          \<and> fst (CheckPermissionUseCase_execute w uid r a) = Inr True)"
  by (auto split: option.splits prod.splits sum.splits if_splits)

lemma requirePermission_passes_iff:
  "(fst (requirePermission q w rq) = None)
     = (\<exists>raw uid. reqUserId rq = Some raw \<and> raw \<noteq> [] \<and> UserId_fromString w raw = Inr uid
          \<and> (\<forall>c\<in>set (toArray q). \<exists>r a. parsePermissionCode c = Some (r, a)
                \<and> fst (CheckPermissionUseCase_execute w uid r a) = Inr True))"
  (is "?L = ?R")
proof (cases "\<exists>raw uid. reqUserId rq = Some raw \<and> raw \<noteq> [] \<and> UserId_fromString w raw = Inr uid")
  case True
  then obtain raw uid where id: "reqUserId rq = Some raw" "raw \<noteq> []" "UserId_fromString w raw = Inr uid"
    by blast
  from requirePermission_authenticated [OF id, of q]
  have "?L = (\<forall>c\<in>set (toArray q). fst (checkPermissions w uid [c]) = None)"
    by (simp add: checkPermissions_all_granted)
  also have "\<dots> = (\<forall>c\<in>set (toArray q). \<exists>r a. parsePermissionCode c = Some (r, a)
                \<and> fst (CheckPermissionUseCase_execute w uid r a) = Inr True)"
    by (simp only: checkPermissions_one_passes)
  finally show ?thesis using id by auto
next
  case False
  then have "fst (requirePermission q w rq) \<noteq> None"
    by (auto simp: requirePermission_def split: option.splits sum.splits)
  with False show ?thesis by blast
qed

lemma requirePermission_decision_failed:
  assumes "reqUserId rq = Some raw" and "raw \<noteq> []" and "UserId_fromString w raw = Inr uid"
    and "parsePermissionCode c = Some (r, a)"
  shows "fst (CheckPermissionUseCase_execute w uid r a) = Inl err \<Longrightarrow>
           fst (requirePermission (One c) w rq) = Some err"
    and "fst (CheckPermissionUseCase_execute w uid r a) = Inr False \<Longrightarrow>
           fst (requirePermission (One c) w rq)
             = Some (ForbiddenError a r ''Missing required permission'')"
  using requirePermission_authenticated [OF assms(1-3), of "One c"] assms(4)
  by (auto split: prod.splits sum.splits)

lemma execute_granted_iff:
  "(fst (CheckPermissionUseCase_execute w uid res act) = Inr True)
     = (\<exists>usr rl ps. UserRepositoryImpl_findById w uid = Inr (Some usr) \<and> isActive usr
          \<and> roleRepository_findById w (roleId usr) = Inr (Some rl) \<and> permissionIds rl \<noteq> []
          \<and> permissionRepository_findByIds w (permissionIds rl) = Inr ps
          \<and> (\<exists>p\<in>set ps. grants p res act))"
  by (auto simp: CheckPermissionUseCase_execute_def list_ex_iff
      split: sum.splits option.splits if_splits)

section \<open>Running a list of handlers\<close>

lemma dispatch_append:
  "dispatch (ms @ ns) w req =
     (case dispatch ms w req of
        (Some e, r, tr) \<Rightarrow> (Some e, r, tr)
      | (None, r, tr) \<Rightarrow> (case dispatch ns w r of (out, r', tr') \<Rightarrow> (out, r', tr @ tr')))"
  by (induction ms arbitrary: req) (auto split: prod.splits option.splits)

lemma requirePermission_request: "fst (snd (requirePermission p w req)) = req"
  by (auto simp: requirePermission_def split: option.splits sum.splits prod.splits)

lemma dispatch_checks_granted:
  "\<forall>p\<in>set ps. fst (requirePermission p w req) = None \<Longrightarrow>
   dispatch (map requirePermission ps) w req
     = (None, req, concat (map (\<lambda>q. snd (snd (requirePermission q w req))) ps))"
proof (induction ps)
  case Nil
  show ?case by simp
next
  case (Cons p ps)
  obtain out r tr where run: "requirePermission p w req = (out, r, tr)"
    by (cases "requirePermission p w req")
  with Cons.prems requirePermission_request [of p w req] have "out = None" "r = req" by auto
  with run Cons show ?case by simp
qed

lemma dispatch_checks_first_failure:
  assumes "\<forall>q\<in>set pre. fst (requirePermission q w req) = None"
    and "fst (requirePermission p w req) = Some e"
  shows "dispatch (map requirePermission (pre @ p # post)) w req
     = (Some e, req, concat (map (\<lambda>q. snd (snd (requirePermission q w req))) (pre @ [p])))"
proof -
  obtain out r tr where run: "requirePermission p w req = (out, r, tr)"
    by (cases "requirePermission p w req")
  with assms(2) requirePermission_request [of p w req] have "out = Some e" "r = req" by auto
  with run have "dispatch (map requirePermission (p # post)) w req = (Some e, req, tr)" by simp
  with run dispatch_checks_granted [OF assms(1)] show ?thesis
    by (simp add: dispatch_append)
qed

lemma dispatch_checks_outcome:
  "(fst (dispatch (map requirePermission ps) w req) = None)
     = (\<forall>p\<in>set ps. fst (requirePermission p w req) = None)"
proof (induction ps)
  case Nil
  show ?case by simp
next
  case (Cons p ps)
  obtain out r tr where run: "requirePermission p w req = (out, r, tr)"
    by (cases "requirePermission p w req")
  with requirePermission_request [of p w req] have r: "r = req" by simp
  show ?case
  proof (cases out)
    case None
    with run r Cons.IH show ?thesis by (auto split: prod.splits)
  next
    case (Some e)
    with run show ?thesis by simp
  qed
qed

lemma execute_no_handler:
  "HandlerInvoked \<notin> set (snd (CheckPermissionUseCase_execute w uid res act))"
  by (simp add: CheckPermissionUseCase_execute_def split: sum.splits option.splits)

lemma checkPermissions_no_handler:
  "HandlerInvoked \<notin> set (snd (checkPermissions w uid cs))"
proof (induction cs)
  case Nil
  show ?case by simp
next
  case (Cons c cs)
  show ?case
  proof (cases "parsePermissionCode c")
    case None
    then show ?thesis by simp
  next
    case (Some ra)
    obtain res act where ra: "ra = (res, act)" by (cases ra)
    obtain out tr where ex: "CheckPermissionUseCase_execute w uid res act = (out, tr)"
      by (cases "CheckPermissionUseCase_execute w uid res act")
    with execute_no_handler [of w uid res act] have "HandlerInvoked \<notin> set tr" by simp
    with Some ra ex Cons.IH show ?thesis by (auto split: sum.splits prod.splits)
  qed
qed

lemma requirePermission_no_handler:
  "HandlerInvoked \<notin> set (snd (snd (requirePermission p w req)))"
proof (cases "\<exists>raw uid. reqUserId req = Some raw \<and> raw \<noteq> [] \<and> UserId_fromString w raw = Inr uid")
  case True
  then obtain raw uid where "reqUserId req = Some raw" "raw \<noteq> []" "UserId_fromString w raw = Inr uid"
    by blast
  from requirePermission_authenticated [OF this, of p] checkPermissions_no_handler [of w uid "toArray p"]
  show ?thesis by simp
next
  case False
  then have "snd (snd (requirePermission p w req)) = []"
    by (auto simp: requirePermission_def split: option.splits sum.splits)
  then show ?thesis by simp
qed

lemma handle_no_handler:
  "HandlerInvoked \<notin> set (snd (snd (AuthenticationMiddleware_handle w req)))"
  by (auto simp: AuthenticationMiddleware_handle_def GetActiveUserByIdUseCase_execute_def
      split: sum.splits option.splits prod.splits if_splits)

lemma dispatch_checks_no_handler:
  "HandlerInvoked \<notin> set (snd (snd (dispatch (map requirePermission ps) w req)))"
proof (induction ps arbitrary: req)
  case Nil
  show ?case by simp
next
  case (Cons p ps)
  obtain out r tr where run: "requirePermission p w req = (out, r, tr)"
    by (cases "requirePermission p w req")
  with requirePermission_no_handler [of p w req] have tr: "HandlerInvoked \<notin> set tr" by simp
  obtain out' r' tr' where rest: "dispatch (map requirePermission ps) w r = (out', r', tr')"
    by (cases "dispatch (map requirePermission ps) w r")
  with Cons.IH [of r] have "HandlerInvoked \<notin> set tr'" by simp
  with run rest tr show ?case by (cases out) simp_all
qed

lemma dispatch_protected:
  "dispatch (map requirePermission ps @ [controllerHandler hout]) w req =
     (case dispatch (map requirePermission ps) w req of
        (Some e, r, tr) \<Rightarrow> (Some e, r, tr)
      | (None, r, tr) \<Rightarrow> (hout, r, tr @ [HandlerInvoked]))"
  by (simp add: dispatch_append controllerHandler_def split: prod.splits option.splits)

section \<open>Permission matching\<close>

text \<open>
  C1: a permission \<open>(r, a)\<close> grants a query \<open>(r2, a2)\<close> exactly when \<open>r\<close> is \<open>r2\<close>
  or the wildcard and \<open>a\<close> is \<open>a2\<close> or the wildcard; the permission \<open>*:*\<close> grants every
  query.
\<close>

theorem grants_iff:
  "grants p r2 a2 = ((resource p = r2 \<or> resource p = ''*'') \<and> (action p = a2 \<or> action p = ''*''))
   \<and> grants (p\<lparr>resource := ''*'', action := ''*''\<rparr>) r2 a2"
  by (simp add: grants_def fieldMatches_def)

section \<open>The authorization decision\<close>

text \<open>
  C5: for a user found with \<open>isActive\<close> false, \<^verbatim>\<open>execute\<close> returns
  \<^verbatim>\<open>Result.ok(false)\<close> for every resource and action, and the only collaborator call
  it makes is the user lookup: no role and no permission is looked up.
\<close>

theorem inactive_user_denied:
  assumes "UserRepositoryImpl_findById w uid = Inr (Some u)" and "\<not> isActive u"
  shows "CheckPermissionUseCase_execute w uid res act = (Inr False, [UserFindById uid])"
  using assms by (simp add: CheckPermissionUseCase_execute_def)

theorem inactive_user_denied_witness:
  "UserRepositoryImpl_findById world0 ''u-off'' = Inr (Some (mkUser ''u-off'' False ''r-admin''))
   \<and> \<not> isActive (mkUser ''u-off'' False ''r-admin'')
   \<and> CheckPermissionUseCase_execute world0 ''u-off'' ''users'' ''read''
       = (Inr False, [UserFindById ''u-off''])"
proof -
  have found: "UserRepositoryImpl_findById world0 ''u-off'' = Inr (Some (mkUser ''u-off'' False ''r-admin''))"
    by (rule findById_world0)
  have off: "\<not> isActive (mkUser ''u-off'' False ''r-admin'')"
    by (simp add: mkUser_def)
  from inactive_user_denied [OF found off] found off show ?thesis by simp
qed

text \<open>
  C6: for an active user whose role has no permission ids, \<^verbatim>\<open>execute\<close> returns
  \<^verbatim>\<open>Result.ok(false)\<close> for every resource and action after the user and role lookups
  only: the batch permission lookup is not issued.
\<close>

theorem empty_role_denied:
  assumes "UserRepositoryImpl_findById w uid = Inr (Some u)" and "isActive u"
    and "roleRepository_findById w (roleId u) = Inr (Some r)" and "permissionIds r = []"
  shows "CheckPermissionUseCase_execute w uid res act
           = (Inr False, [UserFindById uid, RoleFindById (roleId u)])"
  using assms by (simp add: CheckPermissionUseCase_execute_def)

theorem empty_role_denied_witness:
  "UserRepositoryImpl_findById world0 ''u-guest'' = Inr (Some (mkUser ''u-guest'' True ''r-guest''))
   \<and> isActive (mkUser ''u-guest'' True ''r-guest'')
   \<and> roleRepository_findById world0 (roleId (mkUser ''u-guest'' True ''r-guest''))
        = Inr (Some \<lparr>roleName = ''GUEST'', permissionIds = []\<rparr>)
   \<and> CheckPermissionUseCase_execute world0 ''u-guest'' ''anything'' ''anything''
       = (Inr False, [UserFindById ''u-guest'', RoleFindById ''r-guest''])"
proof -
  have found: "UserRepositoryImpl_findById world0 ''u-guest'' = Inr (Some (mkUser ''u-guest'' True ''r-guest''))"
    by (rule findById_world0)
  have active: "isActive (mkUser ''u-guest'' True ''r-guest'')"
    by (simp add: mkUser_def)
  have guest: "roleRepository_findById world0 (roleId (mkUser ''u-guest'' True ''r-guest''))
        = Inr (Some \<lparr>roleName = ''GUEST'', permissionIds = []\<rparr>)"
    by (simp add: world0_def mkUser_def seedRoles_def)
  have none: "permissionIds \<lparr>roleName = ''GUEST'', permissionIds = []\<rparr> = []"
    by simp
  from empty_role_denied [OF found active guest none, of "''anything''" "''anything''"] found active guest
  show ?thesis by (simp add: mkUser_def)
qed

text \<open>
  C7, as the code has it: an absent user makes \<^verbatim>\<open>execute\<close> fail with
  \<^verbatim>\<open>NotFoundError('User', id)\<close>, and an absent role of an active user with
  \<^verbatim>\<open>NotFoundError('Role', roleId)\<close>; the failure is not the denial
  \<^verbatim>\<open>Result.ok(false)\<close>, and its HTTP status is 404, a client-error status and not a
  server-side one.
\<close>

theorem not_found_is_client_error:
  "(UserRepositoryImpl_findById w uid = Inr None \<longrightarrow>
      fst (CheckPermissionUseCase_execute w uid res act) = Inl (NotFoundError ''User'' uid))
   \<and> (UserRepositoryImpl_findById w uid = Inr (Some u) \<and> isActive u
        \<and> roleRepository_findById w (roleId u) = Inr None \<longrightarrow>
      fst (CheckPermissionUseCase_execute w uid res act) = Inl (NotFoundError ''Role'' (roleId u)))
   \<and> (Inl (NotFoundError t i) :: appError + bool) \<noteq> Inr False
   \<and> httpStatus (NotFoundError t i) = 404
   \<and> isClientError (NotFoundError t i) \<and> \<not> isServerFault (NotFoundError t i)"
  by (simp add: CheckPermissionUseCase_execute_def isClientError_def isServerFault_def)

theorem not_found_is_client_error_witness:
  "UserRepositoryImpl_findById world0 ''u-gone'' = Inr None
   \<and> fst (CheckPermissionUseCase_execute world0 ''u-gone'' ''users'' ''read'')
        = Inl (NotFoundError ''User'' ''u-gone'')
   \<and> UserRepositoryImpl_findById world0 ''u-orphan'' = Inr (Some (mkUser ''u-orphan'' True ''r-none''))
   \<and> isActive (mkUser ''u-orphan'' True ''r-none'')
   \<and> roleRepository_findById world0 (roleId (mkUser ''u-orphan'' True ''r-none'')) = Inr None
   \<and> fst (CheckPermissionUseCase_execute world0 ''u-orphan'' ''users'' ''read'')
        = Inl (NotFoundError ''Role'' ''r-none'')"
proof -
  have gone: "UserRepositoryImpl_findById world0 ''u-gone'' = Inr None"
    by (rule findById_world0)
  have orphan: "UserRepositoryImpl_findById world0 ''u-orphan'' = Inr (Some (mkUser ''u-orphan'' True ''r-none''))"
    by (rule findById_world0)
  have active: "isActive (mkUser ''u-orphan'' True ''r-none'')"
    by (simp add: mkUser_def)
  have norole: "roleRepository_findById world0 (roleId (mkUser ''u-orphan'' True ''r-none'')) = Inr None"
    by (simp add: world0_def mkUser_def seedRoles_def)
  from not_found_is_client_error [of world0 "''u-gone''" "''users''" "''read''"] gone
  have a: "fst (CheckPermissionUseCase_execute world0 ''u-gone'' ''users'' ''read'')
        = Inl (NotFoundError ''User'' ''u-gone'')" by simp
  from not_found_is_client_error [of world0 "''u-orphan''" "''users''" "''read''" "mkUser ''u-orphan'' True ''r-none''"]
    orphan active norole
  have b: "fst (CheckPermissionUseCase_execute world0 ''u-orphan'' ''users'' ''read'')
        = Inl (NotFoundError ''Role'' ''r-none'')" by (simp add: mkUser_def)
  from gone orphan active norole a b show ?thesis by simp
qed

text \<open>The claim as written fails for a soft-deleted user: the failure is a
  \<^verbatim>\<open>NotFoundError\<close>, whose status 404 is not a server-side fault.\<close>

theorem not_found_server_fault_counterexample:
  "fst (CheckPermissionUseCase_execute world0 ''u-gone'' ''users'' ''read'')
        = Inl (NotFoundError ''User'' ''u-gone'')
   \<and> \<not> isServerFault (NotFoundError ''User'' ''u-gone'')
   \<and> isClientError (NotFoundError ''User'' ''u-gone'')"
  by (simp add: CheckPermissionUseCase_execute_def findById_world0 isClientError_def isServerFault_def)

section \<open>The multi-permission check\<close>

text \<open>
  C2: for an authenticated request, the codes of a list are checked in the order given.
  One code on its own passes exactly when it parses and \<^verbatim>\<open>execute\<close> returns
  \<^verbatim>\<open>Result.ok(true)\<close> for its resource and action; otherwise its outcome is the format
  error, the error \<^verbatim>\<open>execute\<close> failed with, or the \<^verbatim>\<open>ForbiddenError\<close> of a
  denial. The list passes exactly when every code passes. When a code is denied or fails
  after codes that all pass, the result is that code's own error and the recorded calls
  are those of the codes up to and including it, in order: nothing is evaluated for the
  codes after it. When all pass, the recorded calls are those of every code, in order.
\<close>

theorem multi_permission_fail_fast:
  assumes "reqUserId req = Some raw" and "raw \<noteq> []" and "UserId_fromString w raw = Inr uid"
  shows "((fst (requirePermission (Many cs) w req) = None)
            = (\<forall>c\<in>set cs. fst (requirePermission (One c) w req) = None))
       \<and> ((\<forall>p\<in>set pre. fst (requirePermission (One p) w req) = None)
            \<and> fst (requirePermission (One c) w req) = Some e \<longrightarrow>
          requirePermission (Many (pre @ c # post)) w req
            = (Some e, req,
               concat (map (\<lambda>p. snd (snd (requirePermission (One p) w req))) (pre @ [c]))))
       \<and> ((\<forall>c\<in>set cs. fst (requirePermission (One c) w req) = None) \<longrightarrow>
          snd (snd (requirePermission (Many cs) w req))
            = concat (map (\<lambda>p. snd (snd (requirePermission (One p) w req))) cs))
       \<and> fst (requirePermission (One c) w req)
            = (case parsePermissionCode c of
                 None \<Rightarrow> Some (ValidationError ''permission'' ''Invalid permission format'')
               | Some (r, a) \<Rightarrow>
                   (case fst (CheckPermissionUseCase_execute w uid r a) of
                      Inl err \<Rightarrow> Some err
                    | Inr granted \<Rightarrow>
                        if granted then None
                        else Some (ForbiddenError a r ''Missing required permission'')))
       \<and> snd (snd (requirePermission (One c) w req))
            = (case parsePermissionCode c of
                 None \<Rightarrow> []
               | Some (r, a) \<Rightarrow>
                   CheckPermission r a # snd (CheckPermissionUseCase_execute w uid r a))
       \<and> ((fst (requirePermission (Many cs) w req) = None)
            = (\<forall>c\<in>set cs. \<exists>r a. parsePermissionCode c = Some (r, a)
                  \<and> fst (CheckPermissionUseCase_execute w uid r a) = Inr True))
       \<and> ((\<forall>p\<in>set pre. \<exists>r a. parsePermissionCode p = Some (r, a)
                  \<and> fst (CheckPermissionUseCase_execute w uid r a) = Inr True)
            \<and> (case parsePermissionCode c of
                 None \<Rightarrow> Some (ValidationError ''permission'' ''Invalid permission format'')
               | Some (r, a) \<Rightarrow>
                   (case fst (CheckPermissionUseCase_execute w uid r a) of
                      Inl err \<Rightarrow> Some err
                    | Inr granted \<Rightarrow>
                        if granted then None
                        else Some (ForbiddenError a r ''Missing required permission'')))
                = Some e \<longrightarrow>
          requirePermission (Many (pre @ c # post)) w req
            = (Some e, req,
               concat (map (\<lambda>p. case parsePermissionCode p of
                                   None \<Rightarrow> []
                                 | Some (r, a) \<Rightarrow>
                                     CheckPermission r a
                                       # snd (CheckPermissionUseCase_execute w uid r a))
                         (pre @ [c]))))"
proof -
  note run = requirePermission_authenticated [OF assms]
  note single = requirePermission_one [OF assms]
  have one: "\<And>c. requirePermission (One c) w req
      = (fst (checkPermissions w uid [c]), req, snd (checkPermissions w uid [c]))"
    using run [of "One _"] by simp
  have many: "\<And>cs. requirePermission (Many cs) w req
      = (fst (checkPermissions w uid cs), req, snd (checkPermissions w uid cs))"
    using run [of "Many _"] by simp
  have a: "(fst (requirePermission (Many cs) w req) = None)
            = (\<forall>c\<in>set cs. fst (requirePermission (One c) w req) = None)"
    by (simp add: one many checkPermissions_all_granted)
  have b: "(\<forall>p\<in>set pre. fst (requirePermission (One p) w req) = None)
            \<and> fst (requirePermission (One c) w req) = Some e \<longrightarrow>
          requirePermission (Many (pre @ c # post)) w req
            = (Some e, req,
               concat (map (\<lambda>p. snd (snd (requirePermission (One p) w req))) (pre @ [c])))"
    using checkPermissions_first_failure [of pre w uid c e post]
    by (simp add: one many)
  have c: "(\<forall>c\<in>set cs. fst (requirePermission (One c) w req) = None) \<longrightarrow>
          snd (snd (requirePermission (Many cs) w req))
            = concat (map (\<lambda>p. snd (snd (requirePermission (One p) w req))) cs)"
    using checkPermissions_trace_granted [of cs w uid]
    by (simp add: one many)
  have outcome: "\<And>c. fst (requirePermission (One c) w req)
            = (case parsePermissionCode c of
                 None \<Rightarrow> Some (ValidationError ''permission'' ''Invalid permission format'')
               | Some (r, a) \<Rightarrow>
                   (case fst (CheckPermissionUseCase_execute w uid r a) of
                      Inl err \<Rightarrow> Some err
                    | Inr granted \<Rightarrow>
                        if granted then None
                        else Some (ForbiddenError a r ''Missing required permission'')))"
    by (simp add: single split: option.splits prod.splits)
  have events: "\<And>c. snd (snd (requirePermission (One c) w req))
            = (case parsePermissionCode c of
                 None \<Rightarrow> []
               | Some (r, a) \<Rightarrow>
                   CheckPermission r a # snd (CheckPermissionUseCase_execute w uid r a))"
    by (simp add: single split: option.splits prod.splits)
  have passes: "\<And>c. (fst (requirePermission (One c) w req) = None)
            = (\<exists>r a. parsePermissionCode c = Some (r, a)
                  \<and> fst (CheckPermissionUseCase_execute w uid r a) = Inr True)"
    by (auto simp: outcome split: option.splits sum.splits if_splits)
  have d: "(fst (requirePermission (Many cs) w req) = None)
            = (\<forall>c\<in>set cs. \<exists>r a. parsePermissionCode c = Some (r, a)
                  \<and> fst (CheckPermissionUseCase_execute w uid r a) = Inr True)"
    using a by (simp only: passes)
  have f: "(\<forall>p\<in>set pre. \<exists>r a. parsePermissionCode p = Some (r, a)
                  \<and> fst (CheckPermissionUseCase_execute w uid r a) = Inr True)
            \<and> (case parsePermissionCode c of
                 None \<Rightarrow> Some (ValidationError ''permission'' ''Invalid permission format'')
               | Some (r, a) \<Rightarrow>
                   (case fst (CheckPermissionUseCase_execute w uid r a) of
                      Inl err \<Rightarrow> Some err
                    | Inr granted \<Rightarrow>
                        if granted then None
                        else Some (ForbiddenError a r ''Missing required permission'')))
                = Some e \<longrightarrow>
          requirePermission (Many (pre @ c # post)) w req
            = (Some e, req,
               concat (map (\<lambda>p. case parsePermissionCode p of
                                   None \<Rightarrow> []
                                 | Some (r, a) \<Rightarrow>
                                     CheckPermission r a
                                       # snd (CheckPermissionUseCase_execute w uid r a))
                         (pre @ [c])))"
    using b by (simp only: passes [symmetric] outcome [symmetric] events [symmetric])
  from a b c outcome [of c] events [of c] d f show ?thesis by blast
qed

theorem multi_permission_fail_fast_witness:
  "reqUserId (authenticated ''u-user'') = Some ''u-user'' \<and> ''u-user'' \<noteq> []
   \<and> UserId_fromString world0 ''u-user'' = Inr ''u-user''
   \<and> fst (requirePermission (One ''users:read'') world0 (authenticated ''u-user'')) = None
   \<and> fst (requirePermission (One ''users:write'') world0 (authenticated ''u-user''))
        = Some (ForbiddenError ''write'' ''users'' ''Missing required permission'')
   \<and> requirePermission (Many [''users:read'', ''users:write'', ''bogus'']) world0
        (authenticated ''u-user'')
       = (Some (ForbiddenError ''write'' ''users'' ''Missing required permission''),
          authenticated ''u-user'',
          [CheckPermission ''users'' ''read'', UserFindById ''u-user'', RoleFindById ''r-user'',
           PermissionFindByIds [''p-ur''],
           CheckPermission ''users'' ''write'', UserFindById ''u-user'', RoleFindById ''r-user'',
           PermissionFindByIds [''p-ur'']])
   \<and> requirePermission (Many [''users:read'', ''users:read'']) world0 (authenticated ''u-user'')
       = (None, authenticated ''u-user'',
          [CheckPermission ''users'' ''read'', UserFindById ''u-user'', RoleFindById ''r-user'',
           PermissionFindByIds [''p-ur''],
           CheckPermission ''users'' ''read'', UserFindById ''u-user'', RoleFindById ''r-user'',
           PermissionFindByIds [''p-ur'']])
   \<and> fst (requirePermission (One ''users:read'') world0 (authenticated ''u-gone''))
       = Some (NotFoundError ''User'' ''u-gone'')
   \<and> requirePermission (Many [''users:read'', ''users:write'']) world0 (authenticated ''u-gone'')
       = (Some (NotFoundError ''User'' ''u-gone''), authenticated ''u-gone'',
          [CheckPermission ''users'' ''read'', UserFindById ''u-gone''])"

proof -
  have h1: "reqUserId (authenticated ''u-user'') = Some ''u-user''"
    by (simp add: authenticated_def)
  have h2: "''u-user'' \<noteq> []" by simp
  have h3: "UserId_fromString world0 ''u-user'' = Inr ''u-user''"
    by (simp add: world0_sel)
  note inst = multi_permission_fail_fast [OF h1 h2 h3]
  have pre: "\<forall>p\<in>set [''users:read'']. fst (requirePermission (One p) world0 (authenticated ''u-user'')) = None"
    by (simp add: requirePermission_world0_read)
  have c: "fst (requirePermission (One ''users:write'') world0 (authenticated ''u-user''))
        = Some (ForbiddenError ''write'' ''users'' ''Missing required permission'')"
    by (simp add: requirePermission_world0_write)
  from inst [of _ "[''users:read'']" "''users:write''" _ "[''bogus'']"] pre c
  have failing: "requirePermission (Many ([''users:read''] @ ''users:write'' # [''bogus''])) world0
        (authenticated ''u-user'')
       = (Some (ForbiddenError ''write'' ''users'' ''Missing required permission''),
          authenticated ''u-user'',
          concat (map (\<lambda>p. snd (snd (requirePermission (One p) world0 (authenticated ''u-user''))))
            ([''users:read''] @ [''users:write''])))"
    by blast
  have all: "\<forall>c\<in>set [''users:read'', ''users:read''].
      fst (requirePermission (One c) world0 (authenticated ''u-user'')) = None"
    by (simp add: requirePermission_world0_read)
  from inst [of "[''users:read'', ''users:read'']"] all
  have out: "fst (requirePermission (Many [''users:read'', ''users:read'']) world0 (authenticated ''u-user'')) = None"
    and tr: "snd (snd (requirePermission (Many [''users:read'', ''users:read'']) world0 (authenticated ''u-user'')))
      = concat (map (\<lambda>p. snd (snd (requirePermission (One p) world0 (authenticated ''u-user''))))
          [''users:read'', ''users:read''])"
    by blast+
  have unchanged: "fst (snd (requirePermission (Many [''users:read'', ''users:read'']) world0 (authenticated ''u-user'')))
      = authenticated ''u-user''"
    using requirePermission_authenticated [OF h1 h2 h3, of "Many [''users:read'', ''users:read'']"]
    by simp
  have granted: "requirePermission (Many [''users:read'', ''users:read'']) world0 (authenticated ''u-user'')
       = (None, authenticated ''u-user'',
          [CheckPermission ''users'' ''read'', UserFindById ''u-user'', RoleFindById ''r-user'',
           PermissionFindByIds [''p-ur''],
           CheckPermission ''users'' ''read'', UserFindById ''u-user'', RoleFindById ''r-user'',
           PermissionFindByIds [''p-ur'']])"
    using out tr unchanged
    by (cases "requirePermission (Many [''users:read'', ''users:read'']) world0 (authenticated ''u-user'')")
       (simp add: requirePermission_world0_read)
  from failing have failing': "requirePermission (Many [''users:read'', ''users:write'', ''bogus'']) world0
        (authenticated ''u-user'')
       = (Some (ForbiddenError ''write'' ''users'' ''Missing required permission''),
          authenticated ''u-user'',
          [CheckPermission ''users'' ''read'', UserFindById ''u-user'', RoleFindById ''r-user'',
           PermissionFindByIds [''p-ur''],
           CheckPermission ''users'' ''write'', UserFindById ''u-user'', RoleFindById ''r-user'',
           PermissionFindByIds [''p-ur'']])"
    by (simp add: requirePermission_world0_read requirePermission_world0_write)
  have g1: "reqUserId (authenticated ''u-gone'') = Some ''u-gone''"
    by (simp add: authenticated_def)
  have g2: "''u-gone'' \<noteq> []" by simp
  have g3: "UserId_fromString world0 ''u-gone'' = Inr ''u-gone''"
    by (simp add: world0_sel)
  have parse: "parsePermissionCode ''users:read'' = Some (''users'', ''read'')"
    by (simp add: parsePermissionCode_def element_def)
  have decision: "CheckPermissionUseCase_execute world0 ''u-gone'' ''users'' ''read''
      = (Inl (NotFoundError ''User'' ''u-gone''), [UserFindById ''u-gone''])"
    by (simp add: CheckPermissionUseCase_execute_def findById_world0)
  from multi_permission_fail_fast
    [OF g1 g2 g3, where c = "''users:read''",
     THEN conjunct2, THEN conjunct2, THEN conjunct2, THEN conjunct1]
  have gone: "fst (requirePermission (One ''users:read'') world0 (authenticated ''u-gone''))
       = Some (NotFoundError ''User'' ''u-gone'')"
    by (simp add: parse decision)
  have first: "(\<forall>p\<in>set []. \<exists>r a. parsePermissionCode p = Some (r, a)
                  \<and> fst (CheckPermissionUseCase_execute world0 ''u-gone'' r a) = Inr True)
            \<and> (case parsePermissionCode ''users:read'' of
                 None \<Rightarrow> Some (ValidationError ''permission'' ''Invalid permission format'')
               | Some (r, a) \<Rightarrow>
                   (case fst (CheckPermissionUseCase_execute world0 ''u-gone'' r a) of
                      Inl err \<Rightarrow> Some err
                    | Inr granted \<Rightarrow>
                        if granted then None
                        else Some (ForbiddenError a r ''Missing required permission'')))
                = Some (NotFoundError ''User'' ''u-gone'')"
    by (simp add: parse decision)
  from multi_permission_fail_fast
    [OF g1 g2 g3, where pre = "[]" and c = "''users:read''" and post = "[''users:write'']"
       and e = "NotFoundError ''User'' ''u-gone''",
     THEN conjunct2, THEN conjunct2, THEN conjunct2, THEN conjunct2, THEN conjunct2,
     THEN conjunct2, rule_format, OF first]
  have gone_list: "requirePermission (Many [''users:read'', ''users:write'']) world0
        (authenticated ''u-gone'')
       = (Some (NotFoundError ''User'' ''u-gone''), authenticated ''u-gone'',
          [CheckPermission ''users'' ''read'', UserFindById ''u-gone''])"
    by (simp add: parse decision)
  from h1 h2 h3 pre c failing' granted gone gone_list show ?thesis by simp
qed

section \<open>Permission codes\<close>

text \<open>
  C3, as the code has it: for an authenticated request, a required permission code is
  rejected with \<^verbatim>\<open>ValidationError('permission', 'Invalid permission format')\<close>, before
  any lookup, exactly when its first or its second colon-separated token is missing or
  empty; tokens after the second are ignored. A code without a colon is rejected so, and
  the rejection is not the \<^verbatim>\<open>ForbiddenError\<close> of a denial.
\<close>

theorem invalid_format_iff:
  assumes "reqUserId req = Some raw" and "raw \<noteq> []" and "UserId_fromString w raw = Inr uid"
  shows "(requirePermission (One code) w req
            = (Some (ValidationError ''permission'' ''Invalid permission format''), req, []))
         = (\<not> (\<exists>r a. r \<noteq> [] \<and> a \<noteq> [] \<and> CHR '':'' \<notin> set r \<and> CHR '':'' \<notin> set a
                  \<and> (code = r @ '':'' @ a \<or> (\<exists>more. code = r @ '':'' @ a @ '':'' @ more))))
         \<and> (CHR '':'' \<notin> set code \<longrightarrow>
              requirePermission (One code) w req
                = (Some (ValidationError ''permission'' ''Invalid permission format''), req, []))
         \<and> (r \<noteq> [] \<and> a \<noteq> [] \<and> CHR '':'' \<notin> set r \<and> CHR '':'' \<notin> set a \<longrightarrow>
              requirePermission (One (r @ '':'' @ a @ '':'' @ others)) w req
                = requirePermission (One (r @ '':'' @ a)) w req)
         \<and> ValidationError ''permission'' ''Invalid permission format'' \<noteq> ForbiddenError x y z"
proof -
  let ?invalid = "(Some (ValidationError ''permission'' ''Invalid permission format''), req, [])"
  have run: "requirePermission (One code) w req =
           (fst (checkPermissions w uid [code]), req, snd (checkPermissions w uid [code]))"
    using requirePermission_authenticated [OF assms, of "One code"] by simp
  have iff: "(requirePermission (One code) w req = ?invalid) = (parsePermissionCode code = None)"
  proof (cases "parsePermissionCode code")
    case None
    with run checkPermissions_unparsed [OF None, of w uid "[]"] show ?thesis by simp
  next
    case (Some ra)
    obtain r a where "ra = (r, a)" by (cases ra)
    with Some checkPermissions_parsed [of code r a w uid "[]"] run show ?thesis by auto
  qed
  have shape: "(parsePermissionCode code = None)
     = (\<not> (\<exists>r a. r \<noteq> [] \<and> a \<noteq> [] \<and> CHR '':'' \<notin> set r \<and> CHR '':'' \<notin> set a
                  \<and> (code = r @ '':'' @ a \<or> (\<exists>more. code = r @ '':'' @ a @ '':'' @ more))))"
  proof (cases "parsePermissionCode code")
    case None
    then show ?thesis using parsePermissionCode_Some [of code] by auto
  next
    case (Some ra)
    obtain r a where "ra = (r, a)" by (cases ra)
    with Some have "parsePermissionCode code = Some (r, a)" by simp
    then show ?thesis using parsePermissionCode_Some [of code r a] by (simp del: append_assoc) blast
  qed
  have nocolon: "CHR '':'' \<notin> set code \<longrightarrow> requirePermission (One code) w req = ?invalid"
    using iff no_sep_unparsed by simp
  have extra: "r \<noteq> [] \<and> a \<noteq> [] \<and> CHR '':'' \<notin> set r \<and> CHR '':'' \<notin> set a \<longrightarrow>
              requirePermission (One (r @ '':'' @ a @ '':'' @ others)) w req
                = requirePermission (One (r @ '':'' @ a)) w req"
  proof
    assume ok: "r \<noteq> [] \<and> a \<noteq> [] \<and> CHR '':'' \<notin> set r \<and> CHR '':'' \<notin> set a"
    then have "parsePermissionCode (r @ '':'' @ a @ '':'' @ others) = Some (r, a)"
      and "parsePermissionCode (r @ '':'' @ a) = Some (r, a)"
      using parsePermissionCode_Some [of "r @ '':'' @ a @ '':'' @ others" r a]
        parsePermissionCode_Some [of "r @ '':'' @ a" r a] by auto
    then have "checkPermissions w uid [r @ '':'' @ a @ '':'' @ others]
                 = checkPermissions w uid [r @ '':'' @ a]"
      by (simp del: append_assoc)
    then show "requirePermission (One (r @ '':'' @ a @ '':'' @ others)) w req
                = requirePermission (One (r @ '':'' @ a)) w req"
      using requirePermission_authenticated [OF assms, of "One (r @ '':'' @ a @ '':'' @ others)"]
        requirePermission_authenticated [OF assms, of "One (r @ '':'' @ a)"]
      by (simp del: append_assoc)
  qed
  from iff shape nocolon extra show ?thesis by simp
qed


theorem invalid_format_iff_witness:
  "reqUserId (authenticated ''u-user'') = Some ''u-user'' \<and> ''u-user'' \<noteq> []
   \<and> UserId_fromString world0 ''u-user'' = Inr ''u-user''
   \<and> CHR '':'' \<notin> set ''users''
   \<and> requirePermission (One ''users'') world0 (authenticated ''u-user'')
        = (Some (ValidationError ''permission'' ''Invalid permission format''),
           authenticated ''u-user'', [])"
proof -
  have h1: "reqUserId (authenticated ''u-user'') = Some ''u-user''"
    by (simp add: authenticated_def)
  have h2: "''u-user'' \<noteq> []" by simp
  have h3: "UserId_fromString world0 ''u-user'' = Inr ''u-user''"
    by (simp add: world0_def)
  have h4: "CHR '':'' \<notin> set ''users''" by simp
  from invalid_format_iff [OF h1 h2 h3, of "''users''"] h4
  have "requirePermission (One ''users'') world0 (authenticated ''u-user'')
        = (Some (ValidationError ''permission'' ''Invalid permission format''),
           authenticated ''u-user'', [])" by blast
  with h1 h2 h3 h4 show ?thesis by blast
qed

text \<open>The claim as written fails for a code of three tokens: it is not of the shape
  the specification asks for, and the check does not reject it; it grants on the first two
  tokens.\<close>

theorem extra_tokens_counterexample:
  "\<not> specPermissionCode ''users:read:extra''
   \<and> requirePermission (One ''users:read:extra'') world0 (authenticated ''u-user'')
       = (None, authenticated ''u-user'',
          [CheckPermission ''users'' ''read'', UserFindById ''u-user'', RoleFindById ''r-user'',
           PermissionFindByIds [''p-ur'']])"
proof -
  have parse: "parsePermissionCode ''users:read:extra'' = Some (''users'', ''read'')"
    by (simp add: parsePermissionCode_def element_def)
  have "\<not> specPermissionCode ''users:read:extra''"
    by (simp add: specPermissionCode_def)
  moreover have "UserId_fromString world0 ''u-user'' = Inr ''u-user''"
    by (simp add: world0_def)
  ultimately show ?thesis
    by (simp add: requirePermission_def authenticated_def parse execute_world0_user_read)
qed

section \<open>The authorization header\<close>

text \<open>
  C4, as the code has it: the token service is consulted, with the token \<open>t\<close>, exactly
  when the header's first space-separated token is \<^verbatim>\<open>Bearer\<close> and its second is the
  non-empty \<open>t\<close>; segments after the second are ignored. A missing or empty header
  fails with \<^verbatim>\<open>UnauthorizedError('Token missing')\<close> and every other header with
  \<^verbatim>\<open>UnauthorizedError('Invalid authorization header')\<close>, in both cases with no call
  to the token service and the request left as it was.
\<close>

theorem bearer_header_parsing:
  "((\<exists>out req' tr. AuthenticationMiddleware_handle w req = (out, req', JwtVerify t # tr))
      = (\<exists>s. authorization req = Some s \<and> t \<noteq> [] \<and> CHR '' '' \<notin> set t
              \<and> (s = ''Bearer '' @ t \<or> (\<exists>more. s = ''Bearer '' @ t @ '' '' @ more))))
   \<and> (authorization req = None \<or> authorization req = Some [] \<longrightarrow>
        AuthenticationMiddleware_handle w req
          = (Some (UnauthorizedError ''Token missing''), req, []))
   \<and> (authorization req = Some h \<and> h \<noteq> []
        \<and> \<not> (\<exists>u. u \<noteq> [] \<and> CHR '' '' \<notin> set u
                  \<and> (h = ''Bearer '' @ u \<or> (\<exists>more. h = ''Bearer '' @ u @ '' '' @ more))) \<longrightarrow>
        AuthenticationMiddleware_handle w req
          = (Some (UnauthorizedError ''Invalid authorization header''), req, []))"
proof (intro conjI impI)
  show "(\<exists>out req' tr. AuthenticationMiddleware_handle w req = (out, req', JwtVerify t # tr))
      = (\<exists>s. authorization req = Some s \<and> t \<noteq> [] \<and> CHR '' '' \<notin> set t
              \<and> (s = ''Bearer '' @ t \<or> (\<exists>more. s = ''Bearer '' @ t @ '' '' @ more)))"
  proof (cases "bearerToken (authorization req)")
    case (Inl e)
    from handle_rejected [OF Inl] Inl bearerToken_Inr [of "authorization req" t]
    show ?thesis by simp
  next
    case (Inr t')
    from handle_proceeds [OF Inr, of w]
    have "(\<exists>out req' tr. AuthenticationMiddleware_handle w req = (out, req', JwtVerify t # tr))
            = (t' = t)" by auto
    with Inr bearerToken_Inr [of "authorization req" t] show ?thesis by simp
  qed
next
  assume "authorization req = None \<or> authorization req = Some []"
  then have "bearerToken (authorization req) = Inl (UnauthorizedError ''Token missing'')"
    by (auto simp: bearerToken_def)
  then show "AuthenticationMiddleware_handle w req
          = (Some (UnauthorizedError ''Token missing''), req, [])"
    by (rule handle_rejected)
next
  assume a: "authorization req = Some h \<and> h \<noteq> []
        \<and> \<not> (\<exists>u. u \<noteq> [] \<and> CHR '' '' \<notin> set u
                  \<and> (h = ''Bearer '' @ u \<or> (\<exists>more. h = ''Bearer '' @ u @ '' '' @ more)))"
  have "\<exists>e. bearerToken (authorization req) = Inl e"
  proof (cases "bearerToken (authorization req)")
    case (Inl e)
    then show ?thesis by simp
  next
    case (Inr u)
    with bearerToken_Inr [of "authorization req" u] a show ?thesis by auto
  qed
  then obtain e where e: "bearerToken (authorization req) = Inl e" by blast
  from bearerToken_Inl [OF e] a have "e = UnauthorizedError ''Invalid authorization header''"
    by simp
  with handle_rejected [OF e] show "AuthenticationMiddleware_handle w req
          = (Some (UnauthorizedError ''Invalid authorization header''), req, [])" by simp
qed

theorem bearer_header_parsing_witness:
  "AuthenticationMiddleware_handle world0 (request0 ''Bearer abc'')
     = (None, \<lparr>authorization = Some ''Bearer abc'', reqUserId = Some ''u-admin''\<rparr>,
        [JwtVerify ''abc'', UserFindById ''u-admin''])
   \<and> AuthenticationMiddleware_handle world0 \<lparr>authorization = None, reqUserId = None\<rparr>
       = (Some (UnauthorizedError ''Token missing''), \<lparr>authorization = None, reqUserId = None\<rparr>, [])
   \<and> AuthenticationMiddleware_handle world0 (request0 ''Token abc'')
       = (Some (UnauthorizedError ''Invalid authorization header''), request0 ''Token abc'', [])"
proof -
  have shape: "\<exists>s. authorization (request0 ''Bearer abc'') = Some s \<and> ''abc'' \<noteq> []
       \<and> CHR '' '' \<notin> set ''abc''
       \<and> (s = ''Bearer '' @ ''abc'' \<or> (\<exists>more. s = ''Bearer '' @ ''abc'' @ '' '' @ more))"
    by (simp add: request0_def)
  with bearer_header_parsing [of world0 "request0 ''Bearer abc''" "''abc''"]
  have "\<exists>out req' tr. AuthenticationMiddleware_handle world0 (request0 ''Bearer abc'')
          = (out, req', JwtVerify ''abc'' # tr)" by blast
  moreover have "AuthenticationMiddleware_handle world0 (request0 ''Bearer abc'')
     = (None, \<lparr>authorization = Some ''Bearer abc'', reqUserId = Some ''u-admin''\<rparr>,
        [JwtVerify ''abc'', UserFindById ''u-admin''])"
    by (rule handle_world0_admin) (simp add: bearerToken_def element_def)
  moreover have "AuthenticationMiddleware_handle world0 \<lparr>authorization = None, reqUserId = None\<rparr>
       = (Some (UnauthorizedError ''Token missing''), \<lparr>authorization = None, reqUserId = None\<rparr>, [])"
    using bearer_header_parsing [of world0 "\<lparr>authorization = None, reqUserId = None\<rparr>"] by simp
  moreover have "AuthenticationMiddleware_handle world0 (request0 ''Token abc'')
       = (Some (UnauthorizedError ''Invalid authorization header''), request0 ''Token abc'', [])"
    using bearer_header_parsing [of world0 "request0 ''Token abc''" _ "''Token abc''"]
    by (simp add: request0_def)
  ultimately show ?thesis by blast
qed

text \<open>The claim as written fails for a header with a third segment: it is not of the
  shape the specification asks for, and authentication goes on with the second
  token.\<close>

theorem extra_segments_counterexample:
  "\<not> specBearerHeader ''Bearer abc def''
   \<and> AuthenticationMiddleware_handle world0 (request0 ''Bearer abc def'')
       = (None, \<lparr>authorization = Some ''Bearer abc def'', reqUserId = Some ''u-admin''\<rparr>,
          [JwtVerify ''abc'', UserFindById ''u-admin''])"
proof -
  have "\<not> specBearerHeader ''Bearer abc def''"
    by (simp add: specBearerHeader_def)
  moreover have "bearerToken (Some ''Bearer abc def'') = Inr ''abc''"
    by (simp add: bearerToken_def element_def)
  ultimately show ?thesis using handle_world0_admin by simp
qed

section \<open>Users that cannot authenticate\<close>

text \<open>
  C8: when the header carries a token that verifies and whose identity parses, and the
  user is soft-deleted or absent (no row with that id without a soft-delete marker) or is
  found with \<open>isActive\<close> false, authentication fails with
  \<^verbatim>\<open>UnauthorizedError('User inactive or not found')\<close> after the token check and one
  user lookup, and the request is left as it was: no identity is attached.
\<close>

theorem inactive_or_missing_unauthenticated:
  assumes "bearerToken (authorization req) = Inr token"
    and "JwtService_verify w token = Inr pid"
    and "UserId_fromString w pid = Inr uid"
    and "(\<not> userQueryThrows w
            \<and> (\<forall>r\<in>set (userRows w). row_id r = uid \<longrightarrow> row_deletedAt r \<noteq> None))
         \<or> (\<exists>u. UserRepositoryImpl_findById w uid = Inr (Some u) \<and> \<not> isActive u)"
  shows "AuthenticationMiddleware_handle w req
           = (Some (UnauthorizedError ''User inactive or not found''), req,
              [JwtVerify token, UserFindById uid])"
proof -
  from assms(4) have "UserRepositoryImpl_findById w uid = Inr None
         \<or> (\<exists>u. UserRepositoryImpl_findById w uid = Inr (Some u) \<and> \<not> canAuthenticate u)"
    using findById_no_live_row [of w uid] by (auto simp: canAuthenticate_def)
  with assms(1-3) show ?thesis by (rule handle_user_rejected)
qed

theorem inactive_or_missing_unauthenticated_witness:
  "bearerToken (authorization (request0 ''Bearer gone'')) = Inr ''gone''
   \<and> JwtService_verify world0 ''gone'' = Inr ''u-gone''
   \<and> UserId_fromString world0 ''u-gone'' = Inr ''u-gone''
   \<and> \<not> userQueryThrows world0
   \<and> list_all (\<lambda>r. row_id r \<noteq> ''u-gone'' \<or> row_deletedAt r \<noteq> None) (userRows world0)
   \<and> AuthenticationMiddleware_handle world0 (request0 ''Bearer gone'')
       = (Some (UnauthorizedError ''User inactive or not found''), request0 ''Bearer gone'',
          [JwtVerify ''gone'', UserFindById ''u-gone''])
   \<and> bearerToken (authorization (request0 ''Bearer off'')) = Inr ''off''
   \<and> JwtService_verify world0 ''off'' = Inr ''u-off''
   \<and> UserId_fromString world0 ''u-off'' = Inr ''u-off''
   \<and> UserRepositoryImpl_findById world0 ''u-off'' = Inr (Some (mkUser ''u-off'' False ''r-admin''))
   \<and> isActive (mkUser ''u-off'' False ''r-admin'') = False
   \<and> AuthenticationMiddleware_handle world0 (request0 ''Bearer off'')
       = (Some (UnauthorizedError ''User inactive or not found''), request0 ''Bearer off'',
          [JwtVerify ''off'', UserFindById ''u-off''])"
proof -
  have g1: "bearerToken (authorization (request0 ''Bearer gone'')) = Inr ''gone''"
    by (simp add: request0_def bearerToken_def element_def)
  have g2: "JwtService_verify world0 ''gone'' = Inr ''u-gone''"
    by (simp add: JwtService_verify_def world0_sel seedTokens_def)
  have g3: "UserId_fromString world0 ''u-gone'' = Inr ''u-gone''"
    by (simp add: world0_sel)
  have g4: "\<not> userQueryThrows world0" by (simp add: world0_sel)
  have g5: "list_all (\<lambda>r. row_id r \<noteq> ''u-gone'' \<or> row_deletedAt r \<noteq> None) (userRows world0)"
    by (simp add: world0_def mkRow_def)
  then have g5': "\<forall>r\<in>set (userRows world0). row_id r = ''u-gone'' \<longrightarrow> row_deletedAt r \<noteq> None"
    by (auto simp: list_all_iff)
  from g4 g5' have g6: "(\<not> userQueryThrows world0
            \<and> (\<forall>r\<in>set (userRows world0). row_id r = ''u-gone'' \<longrightarrow> row_deletedAt r \<noteq> None))
         \<or> (\<exists>u. UserRepositoryImpl_findById world0 ''u-gone'' = Inr (Some u) \<and> \<not> isActive u)"
    by blast
  note gone = inactive_or_missing_unauthenticated [OF g1 g2 g3 g6]
  have o1: "bearerToken (authorization (request0 ''Bearer off'')) = Inr ''off''"
    by (simp add: request0_def bearerToken_def element_def)
  have o2: "JwtService_verify world0 ''off'' = Inr ''u-off''"
    by (simp add: JwtService_verify_def world0_sel seedTokens_def)
  have o3: "UserId_fromString world0 ''u-off'' = Inr ''u-off''"
    by (simp add: world0_sel)
  have o4: "UserRepositoryImpl_findById world0 ''u-off'' = Inr (Some (mkUser ''u-off'' False ''r-admin''))"
    by (rule findById_world0)
  have o5: "isActive (mkUser ''u-off'' False ''r-admin'') = False"
    by (simp add: mkUser_def)
  from o4 o5 have o6: "(\<not> userQueryThrows world0
            \<and> (\<forall>r\<in>set (userRows world0). row_id r = ''u-off'' \<longrightarrow> row_deletedAt r \<noteq> None))
         \<or> (\<exists>u. UserRepositoryImpl_findById world0 ''u-off'' = Inr (Some u) \<and> \<not> isActive u)"
    by simp
  note off = inactive_or_missing_unauthenticated [OF o1 o2 o3 o6]
  from g1 g2 g3 g4 g5 gone o1 o2 o3 o4 o5 off show ?thesis by blast
qed


section \<open>The pipeline of a protected route\<close>

text \<open>
  C9: on a protected route the authentication step runs first. It succeeds exactly when
  the header parses, the token verifies, the identity parses and the user is found and
  can authenticate; a token that does not verify ends the request with the verification
  error. If authentication fails, the outcome is its error and nothing else runs. If it
  succeeds, the authorization checks run in the order declared, on the request that now
  carries the identity; a check succeeds exactly when each of its codes parses and
  \<^verbatim>\<open>execute\<close> returns \<^verbatim>\<open>Result.ok(true)\<close> for it, and an error or a denial of
  \<^verbatim>\<open>execute\<close> is the check's error. The first check that fails ends the chain with
  its own error, after the checks before it and none after it. The handler runs exactly
  when authentication and every check succeeded, and then last. The routes of
  \<^verbatim>\<open>PermissionsRoutes\<close> have this shape. The decision \<^verbatim>\<open>execute\<close> itself is
  \<^verbatim>\<open>Result.ok(true)\<close> exactly when the user is found and active, the role is found
  with a non-empty permission list, and some permission fetched for it grants the
  resource and action.
\<close>

theorem protected_route_pipeline:
  "(fst (AuthenticationMiddleware_handle w req) = Some e \<longrightarrow>
      dispatch (protectedRoute required hout) w req = AuthenticationMiddleware_handle w req)
   \<and> (AuthenticationMiddleware_handle w req = (None, req', tr)
       \<and> (\<forall>q\<in>set pre. fst (requirePermission q w req') = None)
       \<and> fst (requirePermission p w req') = Some e' \<longrightarrow>
      dispatch (protectedRoute (pre @ p # post) hout) w req
        = (Some e', req',
           tr @ concat (map (\<lambda>q. snd (snd (requirePermission q w req'))) (pre @ [p]))))
   \<and> (AuthenticationMiddleware_handle w req = (None, req', tr)
       \<and> (\<forall>q\<in>set required. fst (requirePermission q w req') = None) \<longrightarrow>
      dispatch (protectedRoute required hout) w req
        = (hout, req',
           tr @ concat (map (\<lambda>q. snd (snd (requirePermission q w req'))) required)
              @ [HandlerInvoked]))
   \<and> ((HandlerInvoked \<in> set (snd (snd (dispatch (protectedRoute required hout) w req))))
        = (fst (AuthenticationMiddleware_handle w req) = None
           \<and> (\<forall>q\<in>set required.
                 fst (requirePermission q w (fst (snd (AuthenticationMiddleware_handle w req))))
                   = None)))
   \<and> PermissionsRoutes_list hout = protectedRoute [One ''permissions:read''] hout
   \<and> ((fst (AuthenticationMiddleware_handle w req) = None)
        = (\<exists>t pid uid u. bearerToken (authorization req) = Inr t
             \<and> JwtService_verify w t = Inr pid \<and> UserId_fromString w pid = Inr uid
             \<and> UserRepositoryImpl_findById w uid = Inr (Some u) \<and> canAuthenticate u))
   \<and> (bearerToken (authorization req) = Inr t \<and> JwtService_verify w t = Inr pid
        \<and> UserId_fromString w pid = Inr uid
        \<and> UserRepositoryImpl_findById w uid = Inr (Some u) \<and> canAuthenticate u \<longrightarrow>
      AuthenticationMiddleware_handle w req
        = (None, req\<lparr>reqUserId := Some uid\<rparr>, [JwtVerify t, UserFindById uid]))
   \<and> (bearerToken (authorization req) = Inr t \<and> JwtService_verify w t = Inl err \<longrightarrow>
      AuthenticationMiddleware_handle w req = (Some err, req, [JwtVerify t]))
   \<and> ((fst (requirePermission q w rq) = None)
        = (\<exists>raw uid. reqUserId rq = Some raw \<and> raw \<noteq> [] \<and> UserId_fromString w raw = Inr uid
             \<and> (\<forall>c\<in>set (toArray q). \<exists>r a. parsePermissionCode c = Some (r, a)
                   \<and> fst (CheckPermissionUseCase_execute w uid r a) = Inr True)))
   \<and> (reqUserId rq = Some raw \<and> raw \<noteq> [] \<and> UserId_fromString w raw = Inr uid'
        \<and> parsePermissionCode c = Some (r, a)
        \<and> fst (CheckPermissionUseCase_execute w uid' r a) = Inl err' \<longrightarrow>
      fst (requirePermission (One c) w rq) = Some err')
   \<and> (reqUserId rq = Some raw \<and> raw \<noteq> [] \<and> UserId_fromString w raw = Inr uid'
        \<and> parsePermissionCode c = Some (r, a)
        \<and> fst (CheckPermissionUseCase_execute w uid' r a) = Inr False \<longrightarrow>
      fst (requirePermission (One c) w rq)
        = Some (ForbiddenError a r ''Missing required permission''))
   \<and> ((HandlerInvoked \<in> set (snd (snd (dispatch (protectedRoute required hout) w req))))
        = (\<exists>t pid uid u. bearerToken (authorization req) = Inr t
             \<and> JwtService_verify w t = Inr pid \<and> UserId_fromString w pid = Inr uid
             \<and> UserRepositoryImpl_findById w uid = Inr (Some u) \<and> canAuthenticate u
             \<and> (\<forall>q\<in>set required. uid \<noteq> []
                   \<and> (\<exists>uid'. UserId_fromString w uid = Inr uid'
                         \<and> (\<forall>c\<in>set (toArray q). \<exists>r a. parsePermissionCode c = Some (r, a)
                               \<and> fst (CheckPermissionUseCase_execute w uid' r a) = Inr True)))))
   \<and> ((fst (CheckPermissionUseCase_execute w uid' r a) = Inr True)
        = (\<exists>usr rl ps. UserRepositoryImpl_findById w uid' = Inr (Some usr) \<and> isActive usr
             \<and> roleRepository_findById w (roleId usr) = Inr (Some rl) \<and> permissionIds rl \<noteq> []
             \<and> permissionRepository_findByIds w (permissionIds rl) = Inr ps
             \<and> (\<exists>p\<in>set ps. grants p r a)))"
proof -
  have composition:
    "(fst (AuthenticationMiddleware_handle w req) = Some e \<longrightarrow>
      dispatch (protectedRoute required hout) w req = AuthenticationMiddleware_handle w req)
   \<and> (AuthenticationMiddleware_handle w req = (None, req', tr)
       \<and> (\<forall>q\<in>set pre. fst (requirePermission q w req') = None)
       \<and> fst (requirePermission p w req') = Some e' \<longrightarrow>
      dispatch (protectedRoute (pre @ p # post) hout) w req
        = (Some e', req',
           tr @ concat (map (\<lambda>q. snd (snd (requirePermission q w req'))) (pre @ [p]))))
   \<and> (AuthenticationMiddleware_handle w req = (None, req', tr)
       \<and> (\<forall>q\<in>set required. fst (requirePermission q w req') = None) \<longrightarrow>
      dispatch (protectedRoute required hout) w req
        = (hout, req',
           tr @ concat (map (\<lambda>q. snd (snd (requirePermission q w req'))) required)
              @ [HandlerInvoked]))
   \<and> ((HandlerInvoked \<in> set (snd (snd (dispatch (protectedRoute required hout) w req))))
        = (fst (AuthenticationMiddleware_handle w req) = None
           \<and> (\<forall>q\<in>set required.
                 fst (requirePermission q w (fst (snd (AuthenticationMiddleware_handle w req))))
                   = None)))
   \<and> PermissionsRoutes_list hout = protectedRoute [One ''permissions:read''] hout"
  proof (intro conjI impI)
    assume "fst (AuthenticationMiddleware_handle w req) = Some e"
    then show "dispatch (protectedRoute required hout) w req = AuthenticationMiddleware_handle w req"
      by (cases "AuthenticationMiddleware_handle w req") (simp add: protectedRoute_def)
  next
    assume a: "AuthenticationMiddleware_handle w req = (None, req', tr)
         \<and> (\<forall>q\<in>set pre. fst (requirePermission q w req') = None)
         \<and> fst (requirePermission p w req') = Some e'"
    then have "dispatch (map requirePermission (pre @ p # post)) w req'
       = (Some e', req', concat (map (\<lambda>q. snd (snd (requirePermission q w req'))) (pre @ [p])))"
      using dispatch_checks_first_failure [of pre w req' p e' post] by blast
    with a show "dispatch (protectedRoute (pre @ p # post) hout) w req
          = (Some e', req',
             tr @ concat (map (\<lambda>q. snd (snd (requirePermission q w req'))) (pre @ [p])))"
      by (simp add: protectedRoute_def dispatch_protected del: map_append)
  next
    assume a: "AuthenticationMiddleware_handle w req = (None, req', tr)
         \<and> (\<forall>q\<in>set required. fst (requirePermission q w req') = None)"
    then have "dispatch (map requirePermission required) w req'
       = (None, req', concat (map (\<lambda>q. snd (snd (requirePermission q w req'))) required))"
      using dispatch_checks_granted [of required w req'] by blast
    with a show "dispatch (protectedRoute required hout) w req
          = (hout, req',
             tr @ concat (map (\<lambda>q. snd (snd (requirePermission q w req'))) required)
                @ [HandlerInvoked])"
      by (simp add: protectedRoute_def dispatch_protected)
  next
    obtain out r tr where auth: "AuthenticationMiddleware_handle w req = (out, r, tr)"
      by (cases "AuthenticationMiddleware_handle w req")
    with handle_no_handler [of w req] have tr: "HandlerInvoked \<notin> set tr" by simp
    show "(HandlerInvoked \<in> set (snd (snd (dispatch (protectedRoute required hout) w req))))
          = (fst (AuthenticationMiddleware_handle w req) = None
             \<and> (\<forall>q\<in>set required.
                   fst (requirePermission q w (fst (snd (AuthenticationMiddleware_handle w req))))
                     = None))"
    proof (cases out)
      case (Some e)
      with auth tr show ?thesis by (simp add: protectedRoute_def)
    next
      case None
      obtain out' r' tr' where checks: "dispatch (map requirePermission required) w r = (out', r', tr')"
        by (cases "dispatch (map requirePermission required) w r")
      with dispatch_checks_no_handler [of required w r] have tr': "HandlerInvoked \<notin> set tr'" by simp
      from checks dispatch_checks_outcome [of required w r]
      have out': "(out' = None) = (\<forall>q\<in>set required. fst (requirePermission q w r) = None)" by simp
      from auth None checks tr tr' out' show ?thesis
        by (cases out') (simp_all add: protectedRoute_def dispatch_protected)
    qed
  next
    show "PermissionsRoutes_list hout = protectedRoute [One ''permissions:read''] hout"
      by (simp add: PermissionsRoutes_list_def protectedRoute_def)
  qed
  have handler: "(HandlerInvoked \<in> set (snd (snd (dispatch (protectedRoute required hout) w req))))
        = (fst (AuthenticationMiddleware_handle w req) = None
           \<and> (\<forall>q\<in>set required.
                 fst (requirePermission q w (fst (snd (AuthenticationMiddleware_handle w req))))
                   = None))"
    using composition by blast
  have source: "(HandlerInvoked \<in> set (snd (snd (dispatch (protectedRoute required hout) w req))))
        = (\<exists>t pid uid u. bearerToken (authorization req) = Inr t
             \<and> JwtService_verify w t = Inr pid \<and> UserId_fromString w pid = Inr uid
             \<and> UserRepositoryImpl_findById w uid = Inr (Some u) \<and> canAuthenticate u
             \<and> (\<forall>q\<in>set required. uid \<noteq> []
                   \<and> (\<exists>uid'. UserId_fromString w uid = Inr uid'
                         \<and> (\<forall>c\<in>set (toArray q). \<exists>r a. parsePermissionCode c = Some (r, a)
                               \<and> fst (CheckPermissionUseCase_execute w uid' r a) = Inr True))))"
    (is "?H = ?S")
  proof
    assume ?H
    with handler have auth: "fst (AuthenticationMiddleware_handle w req) = None"
      and checks: "\<forall>q\<in>set required.
        fst (requirePermission q w (fst (snd (AuthenticationMiddleware_handle w req)))) = None"
      by blast+
    from auth handle_passes_iff [of w req] obtain t pid uid u where
      ok: "bearerToken (authorization req) = Inr t" "JwtService_verify w t = Inr pid"
        "UserId_fromString w pid = Inr uid" "UserRepositoryImpl_findById w uid = Inr (Some u)"
        "canAuthenticate u" by blast
    from handle_passes [OF ok]
    have left: "fst (snd (AuthenticationMiddleware_handle w req)) = req\<lparr>reqUserId := Some uid\<rparr>"
      by simp
    from checks left requirePermission_passes_iff [of _ w "req\<lparr>reqUserId := Some uid\<rparr>"]
    have "\<forall>q\<in>set required. uid \<noteq> []
            \<and> (\<exists>uid'. UserId_fromString w uid = Inr uid'
                  \<and> (\<forall>c\<in>set (toArray q). \<exists>r a. parsePermissionCode c = Some (r, a)
                        \<and> fst (CheckPermissionUseCase_execute w uid' r a) = Inr True))"
      by simp
    with ok show ?S by blast
  next
    assume ?S
    then obtain t pid uid u where
      ok: "bearerToken (authorization req) = Inr t" "JwtService_verify w t = Inr pid"
        "UserId_fromString w pid = Inr uid" "UserRepositoryImpl_findById w uid = Inr (Some u)"
        "canAuthenticate u"
      and checks: "\<forall>q\<in>set required. uid \<noteq> []
            \<and> (\<exists>uid'. UserId_fromString w uid = Inr uid'
                  \<and> (\<forall>c\<in>set (toArray q). \<exists>r a. parsePermissionCode c = Some (r, a)
                        \<and> fst (CheckPermissionUseCase_execute w uid' r a) = Inr True))"
      by blast
    from handle_passes [OF ok]
    have auth: "fst (AuthenticationMiddleware_handle w req) = None"
      and left: "fst (snd (AuthenticationMiddleware_handle w req)) = req\<lparr>reqUserId := Some uid\<rparr>"
      by simp_all
    from checks requirePermission_passes_iff [of _ w "req\<lparr>reqUserId := Some uid\<rparr>"]
    have "\<forall>q\<in>set required. fst (requirePermission q w (req\<lparr>reqUserId := Some uid\<rparr>)) = None"
      by simp
    with auth left handler show ?H by simp
  qed
  have passes: "bearerToken (authorization req) = Inr t \<and> JwtService_verify w t = Inr pid
        \<and> UserId_fromString w pid = Inr uid
        \<and> UserRepositoryImpl_findById w uid = Inr (Some u) \<and> canAuthenticate u \<longrightarrow>
      AuthenticationMiddleware_handle w req
        = (None, req\<lparr>reqUserId := Some uid\<rparr>, [JwtVerify t, UserFindById uid])"
    using handle_passes [of req t w pid uid u] by blast
  have failed: "bearerToken (authorization req) = Inr t \<and> JwtService_verify w t = Inl err \<longrightarrow>
      AuthenticationMiddleware_handle w req = (Some err, req, [JwtVerify t])"
    using handle_verification_failed [of req t w err] by blast
  have errs: "reqUserId rq = Some raw \<and> raw \<noteq> [] \<and> UserId_fromString w raw = Inr uid'
        \<and> parsePermissionCode c = Some (r, a)
        \<and> fst (CheckPermissionUseCase_execute w uid' r a) = Inl err' \<longrightarrow>
      fst (requirePermission (One c) w rq) = Some err'"
    using requirePermission_decision_failed(1) [of rq raw w uid' c r a err'] by blast
  have denied: "reqUserId rq = Some raw \<and> raw \<noteq> [] \<and> UserId_fromString w raw = Inr uid'
        \<and> parsePermissionCode c = Some (r, a)
        \<and> fst (CheckPermissionUseCase_execute w uid' r a) = Inr False \<longrightarrow>
      fst (requirePermission (One c) w rq)
        = Some (ForbiddenError a r ''Missing required permission'')"
    using requirePermission_decision_failed(2) [of rq raw w uid' c r a] by blast
  note stages = handle_passes_iff [of w req] passes failed
    requirePermission_passes_iff [of q w rq] errs denied source
    execute_granted_iff [of w uid' r a]
  from composition stages show ?thesis
    by (elim conjE, intro conjI) assumption+
qed

theorem protected_route_pipeline_witness:
  "dispatch (PermissionsRoutes_list None) world0 (request0 ''Token abc'')
     = (Some (UnauthorizedError ''Invalid authorization header''), request0 ''Token abc'', [])
   \<and> dispatch (PermissionsRoutes_list None) world0 (request0 ''Bearer usr'')
     = (Some (ForbiddenError ''read'' ''permissions'' ''Missing required permission''),
        \<lparr>authorization = Some ''Bearer usr'', reqUserId = Some ''u-user''\<rparr>,
        [JwtVerify ''usr'', UserFindById ''u-user'',
         CheckPermission ''permissions'' ''read'', UserFindById ''u-user'',
         RoleFindById ''r-user'', PermissionFindByIds [''p-ur'']])
   \<and> dispatch (PermissionsRoutes_list None) world0 (request0 ''Bearer abc'')
     = (None, \<lparr>authorization = Some ''Bearer abc'', reqUserId = Some ''u-admin''\<rparr>,
        [JwtVerify ''abc'', UserFindById ''u-admin'',
         CheckPermission ''permissions'' ''read'', UserFindById ''u-admin'',
         RoleFindById ''r-admin'', PermissionFindByIds [''p-all''], HandlerInvoked])
   \<and> dispatch (PermissionsRoutes_list None) world0 (request0 ''Bearer nope'')
     = (Some (UnauthorizedError ''Invalid or expired token''), request0 ''Bearer nope'',
        [JwtVerify ''nope''])
   \<and> dispatch (PermissionsRoutes_list None) world0 (request0 ''Bearer orph'')
     = (Some (NotFoundError ''Role'' ''r-none''),
        \<lparr>authorization = Some ''Bearer orph'', reqUserId = Some ''u-orphan''\<rparr>,
        [JwtVerify ''orph'', UserFindById ''u-orphan'',
         CheckPermission ''permissions'' ''read'', UserFindById ''u-orphan'',
         RoleFindById ''r-none''])"
proof -
  let ?user = "\<lparr>authorization = Some ''Bearer usr'', reqUserId = Some ''u-user''\<rparr>"
  let ?admin = "\<lparr>authorization = Some ''Bearer abc'', reqUserId = Some ''u-admin''\<rparr>"
  let ?orphan = "\<lparr>authorization = Some ''Bearer orph'', reqUserId = Some ''u-orphan''\<rparr>"
  let ?denied = "ForbiddenError ''read'' ''permissions'' ''Missing required permission''"
  note route = protected_route_pipeline
    [where hout = None, THEN conjunct2, THEN conjunct2, THEN conjunct2, THEN conjunct2,
     THEN conjunct1]

  (* A header of the wrong scheme: authentication fails and nothing else runs. *)
  have "fst (AuthenticationMiddleware_handle world0 (request0 ''Token abc''))
      = Some (UnauthorizedError ''Invalid authorization header'')"
    by (simp add: handle_world0_wrong_scheme)
  from protected_route_pipeline
    [where w = world0 and req = "request0 ''Token abc''" and required = "[One ''permissions:read'']"
       and hout = None and e = "UnauthorizedError ''Invalid authorization header''",
     THEN conjunct1, rule_format, OF this]
  have a: "dispatch (PermissionsRoutes_list None) world0 (request0 ''Token abc'')
      = (Some (UnauthorizedError ''Invalid authorization header''), request0 ''Token abc'', [])"
    by (simp add: route handle_world0_wrong_scheme)

  (* A user without the permission: the check fails and the handler does not run. *)
  have "AuthenticationMiddleware_handle world0 (request0 ''Bearer usr'')
       = (None, ?user, [JwtVerify ''usr'', UserFindById ''u-user''])
     \<and> (\<forall>q\<in>set []. fst (requirePermission q world0 ?user) = None)
     \<and> fst (requirePermission (One ''permissions:read'') world0 ?user) = Some ?denied"
    by (simp add: handle_world0_user requirePermission_world0_user_permissions)
  from protected_route_pipeline
    [where w = world0 and req = "request0 ''Bearer usr''" and hout = None and req' = ?user
       and tr = "[JwtVerify ''usr'', UserFindById ''u-user'']" and pre = "[]"
       and p = "One ''permissions:read''" and e' = ?denied and post = "[]",
     THEN conjunct2, THEN conjunct1, rule_format, OF this]
  have b: "dispatch (PermissionsRoutes_list None) world0 (request0 ''Bearer usr'')
      = (Some ?denied, ?user,
         [JwtVerify ''usr'', UserFindById ''u-user'',
          CheckPermission ''permissions'' ''read'', UserFindById ''u-user'',
          RoleFindById ''r-user'', PermissionFindByIds [''p-ur'']])"
    by (simp add: route requirePermission_world0_user_permissions)

  (* The administrator: every stage passes and the handler runs last. *)
  have "AuthenticationMiddleware_handle world0 (request0 ''Bearer abc'')
       = (None, ?admin, [JwtVerify ''abc'', UserFindById ''u-admin''])
     \<and> (\<forall>q\<in>set [One ''permissions:read'']. fst (requirePermission q world0 ?admin) = None)"
    using handle_world0_admin [of "''Bearer abc''"]
    by (simp add: requirePermission_world0_admin_permissions bearerToken_def element_def)
  from protected_route_pipeline
    [where w = world0 and req = "request0 ''Bearer abc''" and hout = None and req' = ?admin
       and tr = "[JwtVerify ''abc'', UserFindById ''u-admin'']"
       and required = "[One ''permissions:read'']",
     THEN conjunct2, THEN conjunct2, THEN conjunct1, rule_format, OF this]
  have c: "dispatch (PermissionsRoutes_list None) world0 (request0 ''Bearer abc'')
      = (None, ?admin,
         [JwtVerify ''abc'', UserFindById ''u-admin'',
          CheckPermission ''permissions'' ''read'', UserFindById ''u-admin'',
          RoleFindById ''r-admin'', PermissionFindByIds [''p-all''], HandlerInvoked])"
    by (simp add: route requirePermission_world0_admin_permissions)

  (* A token that does not verify: the verification error is the outcome. *)
  have "bearerToken (authorization (request0 ''Bearer nope'')) = Inr ''nope''
     \<and> JwtService_verify world0 ''nope'' = Inl (UnauthorizedError ''Invalid or expired token'')"
    by (simp add: request0_def bearerToken_def element_def JwtService_verify_def world0_sel
        seedTokens_def)
  from protected_route_pipeline
    [where w = world0 and req = "request0 ''Bearer nope''" and t = "''nope''"
       and err = "UnauthorizedError ''Invalid or expired token''",
     THEN conjunct2, THEN conjunct2, THEN conjunct2, THEN conjunct2, THEN conjunct2,
     THEN conjunct2, THEN conjunct2, THEN conjunct1, rule_format, OF this]
  have nope: "AuthenticationMiddleware_handle world0 (request0 ''Bearer nope'')
      = (Some (UnauthorizedError ''Invalid or expired token''), request0 ''Bearer nope'',
         [JwtVerify ''nope''])" .
  then have "fst (AuthenticationMiddleware_handle world0 (request0 ''Bearer nope''))
      = Some (UnauthorizedError ''Invalid or expired token'')" by simp
  from protected_route_pipeline
    [where w = world0 and req = "request0 ''Bearer nope''" and required = "[One ''permissions:read'']"
       and hout = None and e = "UnauthorizedError ''Invalid or expired token''",
     THEN conjunct1, rule_format, OF this]
  have d: "dispatch (PermissionsRoutes_list None) world0 (request0 ''Bearer nope'')
      = (Some (UnauthorizedError ''Invalid or expired token''), request0 ''Bearer nope'',
         [JwtVerify ''nope''])"
    by (simp add: route nope)

  (* A user whose role is gone: authentication passes, the decision fails with its error, and the handler does not run. *)
  have "bearerToken (authorization (request0 ''Bearer orph'')) = Inr ''orph''
     \<and> JwtService_verify world0 ''orph'' = Inr ''u-orphan''
     \<and> UserId_fromString world0 ''u-orphan'' = Inr ''u-orphan''
     \<and> UserRepositoryImpl_findById world0 ''u-orphan''
          = Inr (Some (mkUser ''u-orphan'' True ''r-none''))
     \<and> canAuthenticate (mkUser ''u-orphan'' True ''r-none'')"
    by (simp add: request0_def bearerToken_def element_def JwtService_verify_def world0_sel
        seedTokens_def findById_world0 canAuthenticate_def mkUser_def)
  from protected_route_pipeline
    [where w = world0 and req = "request0 ''Bearer orph''" and t = "''orph''"
       and pid = "''u-orphan''" and uid = "''u-orphan''"
       and u = "mkUser ''u-orphan'' True ''r-none''",
     THEN conjunct2, THEN conjunct2, THEN conjunct2, THEN conjunct2, THEN conjunct2,
     THEN conjunct2, THEN conjunct1, rule_format, OF this]
  have orph: "AuthenticationMiddleware_handle world0 (request0 ''Bearer orph'')
      = (None, ?orphan, [JwtVerify ''orph'', UserFindById ''u-orphan''])"
    by (simp add: request0_def)
  have decision: "CheckPermissionUseCase_execute world0 ''u-orphan'' ''permissions'' ''read''
      = (Inl (NotFoundError ''Role'' ''r-none''),
         [UserFindById ''u-orphan'', RoleFindById ''r-none''])"
    by (simp add: CheckPermissionUseCase_execute_def findById_world0 mkUser_def world0_sel
        seedRoles_def)
  then have "reqUserId ?orphan = Some ''u-orphan'' \<and> ''u-orphan'' \<noteq> []
     \<and> UserId_fromString world0 ''u-orphan'' = Inr ''u-orphan''
     \<and> parsePermissionCode ''permissions:read'' = Some (''permissions'', ''read'')
     \<and> fst (CheckPermissionUseCase_execute world0 ''u-orphan'' ''permissions'' ''read'')
          = Inl (NotFoundError ''Role'' ''r-none'')"
    by (simp add: world0_sel parse_permissions_read)
  from protected_route_pipeline
    [where w = world0 and rq = ?orphan and raw = "''u-orphan''" and uid' = "''u-orphan''"
       and c = "''permissions:read''" and r = "''permissions''" and a = "''read''"
       and err' = "NotFoundError ''Role'' ''r-none''",
     THEN conjunct2, THEN conjunct2, THEN conjunct2, THEN conjunct2, THEN conjunct2,
     THEN conjunct2, THEN conjunct2, THEN conjunct2, THEN conjunct2, THEN conjunct1,
     rule_format, OF this]
  have failing: "fst (requirePermission (One ''permissions:read'') world0 ?orphan)
      = Some (NotFoundError ''Role'' ''r-none'')" .
  have events: "snd (snd (requirePermission (One ''permissions:read'') world0 ?orphan))
      = [CheckPermission ''permissions'' ''read'', UserFindById ''u-orphan'',
         RoleFindById ''r-none'']"
    by (simp add: requirePermission_def world0_sel parse_permissions_read decision)
  from orph failing
  have "AuthenticationMiddleware_handle world0 (request0 ''Bearer orph'')
       = (None, ?orphan, [JwtVerify ''orph'', UserFindById ''u-orphan''])
     \<and> (\<forall>q\<in>set []. fst (requirePermission q world0 ?orphan) = None)
     \<and> fst (requirePermission (One ''permissions:read'') world0 ?orphan)
         = Some (NotFoundError ''Role'' ''r-none'')"
    by simp
  from protected_route_pipeline
    [where w = world0 and req = "request0 ''Bearer orph''" and hout = None and req' = ?orphan
       and tr = "[JwtVerify ''orph'', UserFindById ''u-orphan'']" and pre = "[]"
       and p = "One ''permissions:read''" and e' = "NotFoundError ''Role'' ''r-none''"
       and post = "[]",
     THEN conjunct2, THEN conjunct1, rule_format, OF this]
  have e: "dispatch (PermissionsRoutes_list None) world0 (request0 ''Bearer orph'')
      = (Some (NotFoundError ''Role'' ''r-none''), ?orphan,
         [JwtVerify ''orph'', UserFindById ''u-orphan'',
          CheckPermission ''permissions'' ''read'', UserFindById ''u-orphan'',
          RoleFindById ''r-none''])"
    by (simp add: route events)
  from a b c d e show ?thesis by simp
qed

section \<open>The Result class\<close>

text \<open>
  C10: a Result is a success or a failure and never both; \<^verbatim>\<open>Result.ok(v).value\<close> is
  \<open>v\<close> and \<^verbatim>\<open>Result.fail(e).error\<close> is \<open>e\<close>; the getter \<^verbatim>\<open>value\<close> throws exactly
  on a failure and the getter \<^verbatim>\<open>error\<close> throws exactly on a success.
\<close>

theorem Result_exclusive:
  "isFailure r = (\<not> isSuccess r)
   \<and> get_value (Result_ok v :: ('s, 'e) result) = Inr (Some v)
   \<and> get_error (Result_fail e :: ('s, 'e) result) = Inr (Some e)
   \<and> isl (get_value r) = isFailure r
   \<and> isl (get_error r) = isSuccess r"
  by (simp add: isFailure_def isSuccess_def get_value_def get_error_def Result_ok_def Result_fail_def)

end
